theory Spec2Isabelle
  imports Main
begin

section \<open>JavaScript values\<close>

text \<open>
  The logger of \<^verbatim>\<open>src/gelf-logger.js\<close> is dynamically typed: messages, custom fields and
  error values are arbitrary JavaScript values. The values modelled here are the plain data
  a caller can write as a literal: \<^verbatim>\<open>undefined\<close>, \<^verbatim>\<open>null\<close>, booleans, integral numbers,
  BigInts, strings, arrays and plain objects. An object is the list of its own enumerable
  properties in the order \<^verbatim>\<open>Object.entries\<close> lists them. Functions, symbols, objects with
  user-defined \<^verbatim>\<open>toString\<close>/\<^verbatim>\<open>toJSON\<close>/getters and cyclic objects are outside the model;
  a BigInt is the value on which \<^verbatim>\<open>JSON.stringify\<close> raises. Numbers are the integers
  (levels, counters, status codes, millisecond clocks): \<open>JNum n\<close> is the Number that the
  integer literal \<open>n\<close> denotes, the double nearest to \<open>n\<close>. The one fractional number of
  the logger, the record's \<^verbatim>\<open>timestamp\<close>, is taken as a parameter where it is used.

  A private method \<^verbatim>\<open>_name\<close> of the source is the constant \<open>priv_name\<close> here.
\<close>

datatype jsval =
    JUndefined
  | JNull
  | JBool bool
  | JNum int
  | JBigInt int
  | JStr string
  | JArr "jsval list"
  | JObj "(string \<times> jsval) list"

type_synonym entries = "(string \<times> jsval) list"

text \<open>
  An \<^verbatim>\<open>Error\<close> instance raised by the platform: its name and its message (the message texts
  are the engine's and only indicative). A computation that may raise returns \<open>Inl\<close> the
  error. On the plain data above the logger runs no code of its caller, so every exception
  it meets is such an instance.
\<close>

datatype js_error = JsError string string


fun error_message :: "js_error \<Rightarrow> string" where
  "error_message (JsError nm msg) = msg"

definition TypeError :: "string \<Rightarrow> js_error" where
  "TypeError msg = JsError ''TypeError'' msg"

definition ReferenceError :: "string \<Rightarrow> js_error" where
  "ReferenceError msg = JsError ''ReferenceError'' msg"

definition InvalidStateError :: "string \<Rightarrow> js_error" where
  "InvalidStateError msg = JsError ''InvalidStateError'' msg"

definition SyntaxError :: "string \<Rightarrow> js_error" where
  "SyntaxError msg = JsError ''SyntaxError'' msg"

subsection \<open>Coercions\<close>

text \<open>Truthiness, as \<^verbatim>\<open>if (v)\<close>, \<^verbatim>\<open>!v\<close> and \<^verbatim>\<open>a || b\<close> test it.\<close>

fun truthy :: "jsval \<Rightarrow> bool" where
  "truthy JUndefined = False"
| "truthy JNull = False"
| "truthy (JBool b) = b"
| "truthy (JNum n) = (n \<noteq> 0)"
| "truthy (JBigInt n) = (n \<noteq> 0)"
| "truthy (JStr s) = (s \<noteq> [])"
| "truthy (JArr xs) = True"
| "truthy (JObj ps) = True"

fun js_typeof :: "jsval \<Rightarrow> string" where
  "js_typeof JUndefined = ''undefined''"
| "js_typeof JNull = ''object''"
| "js_typeof (JBool b) = ''boolean''"
| "js_typeof (JNum n) = ''number''"
| "js_typeof (JBigInt n) = ''bigint''"
| "js_typeof (JStr s) = ''string''"
| "js_typeof (JArr xs) = ''object''"
| "js_typeof (JObj ps) = ''object''"

text \<open>A default parameter \<^verbatim>\<open>p = d\<close> replaces \<^verbatim>\<open>undefined\<close> only.\<close>

definition default_arg :: "jsval \<Rightarrow> jsval \<Rightarrow> jsval" where
  "default_arg d v = (if v = JUndefined then d else v)"

text \<open>Decimal numerals.\<close>

definition digit_char :: "nat \<Rightarrow> char" where
  "digit_char d = ''0123456789'' ! d"

fun nat_to_string :: "nat \<Rightarrow> string" where
  "nat_to_string n =
     (if n < 10 then [digit_char n] else nat_to_string (n div 10) @ [digit_char (n mod 10)])"

definition int_to_string :: "int \<Rightarrow> string" where
  "int_to_string i = (if i < 0 then CHR ''-'' # nat_to_string (nat (- i)) else nat_to_string (nat i))"

text \<open>
  The text of a Number. Below \<open>2^53\<close> every integer is a double of its own and is printed
  with all its digits. Above, the literal is rounded to the nearest double (ties to the even
  significand, \<^verbatim>\<open>Infinity\<close> from \<open>2^1024\<close> on), and the double is printed with the fewest
  significant digits that read back as the same double, the closest such decimal being taken:
  followed by zeros while the decimal has at most 21 digits, in exponent form beyond.
\<close>

fun bit_length :: "nat \<Rightarrow> nat" where
  "bit_length n = (if n = 0 then 0 else Suc (bit_length (n div 2)))"

text \<open>The double nearest to a natural number; \<open>None\<close> is \<^verbatim>\<open>Infinity\<close>.\<close>

definition nearest_double :: "nat \<Rightarrow> nat option" where
  "nearest_double m =
     (if m < 2 ^ 53 then Some m
      else (let sh = bit_length m - 53;
                q = m div 2 ^ sh;
                r = m mod 2 ^ sh;
                h = 2 ^ (sh - 1);
                q' = (if h < r \<or> (r = h \<and> odd q) then Suc q else q);
                v = q' * 2 ^ sh
            in if 2 ^ 1024 \<le> v then None else Some v))"

definition num_digits :: "nat \<Rightarrow> nat" where
  "num_digits n = length (nat_to_string n)"

text \<open>
  The decimal of \<open>k\<close> significant digits that reads back as the double \<open>x\<close>, if there is
  one: \<open>x\<close> cut to \<open>k\<close> digits, or the next decimal of \<open>k\<close> digits above it.
\<close>

definition decimal_at :: "nat \<Rightarrow> nat \<Rightarrow> nat option" where
  "decimal_at x k =
     (let scale = 10 ^ (num_digits x - k);
          lo = (x div scale) * scale;
          hi = lo + scale;
          lo_ok = (nearest_double lo = Some x);
          hi_ok = (nearest_double hi = Some x)
      in if lo_ok \<and> hi_ok
         then Some (if x - lo < hi - x \<or> (x - lo = hi - x \<and> even (x div scale)) then lo else hi)
         else if lo_ok then Some lo
         else if hi_ok then Some hi
         else None)"

definition shortest_decimal :: "nat \<Rightarrow> nat" where
  "shortest_decimal x =
     (case List.map_filter (decimal_at x) [1..<18] of [] \<Rightarrow> x | c # cs \<Rightarrow> c)"

definition exponent_form :: "nat \<Rightarrow> string" where
  "exponent_form c =
     (let ds = rev (dropWhile (\<lambda>d. d = CHR ''0'') (rev (nat_to_string c)))
      in hd ds # (if tl ds = [] then [] else CHR ''.'' # tl ds)
           @ ''e+'' @ nat_to_string (num_digits c - 1))"

definition number_to_string :: "int \<Rightarrow> string" where
  "number_to_string i =
     (if \<bar>i\<bar> < 2 ^ 53 then int_to_string i
      else (if i < 0 then ''-'' else []) @
           (case nearest_double (nat \<bar>i\<bar>) of
              None \<Rightarrow> ''Infinity''
            | Some x \<Rightarrow>
                (let c = shortest_decimal x
                 in if num_digits c \<le> 21 then nat_to_string c else exponent_form c)))"

fun join :: "string \<Rightarrow> string list \<Rightarrow> string" where
  "join sep [] = []"
| "join sep [x] = x"
| "join sep (x # y # ys) = x @ sep @ join sep (y # ys)"

text \<open>
  \<^verbatim>\<open>String(v)\<close>. An array joins its elements with commas, \<^verbatim>\<open>null\<close> and \<^verbatim>\<open>undefined\<close>
  elements giving the empty string; a plain object gives \<^verbatim>\<open>[object Object]\<close>. None of the
  modelled values makes \<^verbatim>\<open>String\<close> raise.
\<close>

fun js_String :: "jsval \<Rightarrow> string" where
  "js_String JUndefined = ''undefined''"
| "js_String JNull = ''null''"
| "js_String (JBool b) = (if b then ''true'' else ''false'')"
| "js_String (JNum n) = number_to_string n"
| "js_String (JBigInt n) = int_to_string n"
| "js_String (JStr s) = s"
| "js_String (JArr xs) =
     join '','' (map (\<lambda>x. if x = JNull then [] else if x = JUndefined then [] else js_String x) xs)"
| "js_String (JObj ps) = ''[object Object]''"

subsection \<open>\<^verbatim>\<open>JSON.stringify\<close>\<close>

definition hex_char :: "nat \<Rightarrow> char" where
  "hex_char d = ''0123456789abcdef'' ! d"

text \<open>
  The escapes of \<^verbatim>\<open>JSON.stringify\<close>: the quote (0x22), the backslash (0x5C) and the control
  characters below 0x20.
\<close>

definition json_escape :: "char \<Rightarrow> string" where
  "json_escape c =
     (let n = (of_char c :: nat) in
      if n = 0x22 then [CHR 0x5C, CHR 0x22]
      else if n = 0x5C then [CHR 0x5C, CHR 0x5C]
      else if n = 0x08 then [CHR 0x5C, CHR ''b'']
      else if n = 0x09 then [CHR 0x5C, CHR ''t'']
      else if n = 0x0A then [CHR 0x5C, CHR ''n'']
      else if n = 0x0C then [CHR 0x5C, CHR ''f'']
      else if n = 0x0D then [CHR 0x5C, CHR ''r'']
      else if n < 0x20 then [CHR 0x5C, CHR ''u'', CHR ''0'', CHR ''0'', hex_char (n div 16), hex_char (n mod 16)]
      else [c])"

definition json_quote :: "string \<Rightarrow> string" where
  "json_quote s = CHR 0x22 # concat (map json_escape s) @ [CHR 0x22]"

text \<open>A Number in JSON: its text, \<^verbatim>\<open>null\<close> for \<^verbatim>\<open>Infinity\<close>.\<close>

definition json_number :: "int \<Rightarrow> string" where
  "json_number i =
     (if \<bar>i\<bar> < 2 ^ 53 then int_to_string i
      else (case nearest_double (nat \<bar>i\<bar>) of
              None \<Rightarrow> ''null''
            | Some x \<Rightarrow> number_to_string i))"

text \<open>
  The serializer proper. \<open>None\<close> stands for the \<^verbatim>\<open>TypeError\<close> raised when a BigInt is met.
  Inside an array \<^verbatim>\<open>undefined\<close> is written \<^verbatim>\<open>null\<close>; a property whose value is
  \<^verbatim>\<open>undefined\<close> is left out.
\<close>

fun json_ser :: "jsval \<Rightarrow> string option"
  and json_elems :: "jsval list \<Rightarrow> string list option"
  and json_props :: "(string \<times> jsval) list \<Rightarrow> string list option" where
  "json_ser JUndefined = Some ''null''"
| "json_ser JNull = Some ''null''"
| "json_ser (JBool b) = Some (if b then ''true'' else ''false'')"
| "json_ser (JNum n) = Some (json_number n)"
| "json_ser (JBigInt n) = None"
| "json_ser (JStr s) = Some (json_quote s)"
| "json_ser (JArr xs) =
     (case json_elems xs of None \<Rightarrow> None | Some ts \<Rightarrow> Some (''['' @ join '','' ts @ '']''))"
| "json_ser (JObj ps) =
     (case json_props ps of None \<Rightarrow> None | Some ts \<Rightarrow> Some (''{'' @ join '','' ts @ ''}''))"
| "json_elems [] = Some []"
| "json_elems (x # xs) =
     (case json_ser x of None \<Rightarrow> None
      | Some t \<Rightarrow> (case json_elems xs of None \<Rightarrow> None | Some ts \<Rightarrow> Some (t # ts)))"
| "json_props [] = Some []"
| "json_props (p # ps) =
     (if snd p = JUndefined then json_props ps
      else (case json_ser (snd p) of None \<Rightarrow> None
            | Some t \<Rightarrow> (case json_props ps of None \<Rightarrow> None
                          | Some ts \<Rightarrow> Some ((json_quote (fst p) @ '':'' @ t) # ts))))"

text \<open>
  \<^verbatim>\<open>JSON.stringify(v)\<close>: \<open>Inl\<close> the thrown error, \<open>Inr\<close> the returned value (a string, or
  \<^verbatim>\<open>undefined\<close> for \<^verbatim>\<open>undefined\<close>).
\<close>

definition JSON_stringify :: "jsval \<Rightarrow> js_error + jsval" where
  "JSON_stringify v =
     (if v = JUndefined then Inr JUndefined
      else (case json_ser v of
              None \<Rightarrow> Inl (TypeError ''Do not know how to serialize a BigInt'')
            | Some t \<Rightarrow> Inr (JStr t)))"

subsection \<open>Objects\<close>

text \<open>
  Own property keys are ordered as the language orders them: array indices (canonical
  numerals below \<open>2^32 - 1\<close>) first in ascending order, then the other keys in the order
  they were created. Assigning to an existing key keeps its place.
\<close>

definition is_digit :: "char \<Rightarrow> bool" where
  "is_digit c = (c \<in> set ''0123456789'')"

definition digit_val :: "char \<Rightarrow> nat" where
  "digit_val c = (of_char c :: nat) - 48"

definition digits_to_nat :: "string \<Rightarrow> nat" where
  "digits_to_nat s = foldl (\<lambda>a c. 10 * a + digit_val c) 0 s"

definition is_array_index :: "string \<Rightarrow> bool" where
  "is_array_index k =
     (k \<noteq> [] \<and> list_all is_digit k \<and> (k = ''0'' \<or> hd k \<noteq> CHR ''0'') \<and>
      digits_to_nat k < 4294967295)"

fun obj_insert :: "string \<Rightarrow> jsval \<Rightarrow> entries \<Rightarrow> entries" where
  "obj_insert k v [] = [(k, v)]"
| "obj_insert k v (p # ps) =
     (if is_array_index k \<and>
         (if is_array_index (fst p) then digits_to_nat k < digits_to_nat (fst p) else True)
      then (k, v) # p # ps
      else p # obj_insert k v ps)"

text \<open>\<^verbatim>\<open>obj[k] = v\<close>\<close>

definition obj_set :: "string \<Rightarrow> jsval \<Rightarrow> entries \<Rightarrow> entries" where
  "obj_set k v ps =
     (if map_of ps k = None then obj_insert k v ps
      else map (\<lambda>p. if fst p = k then (k, v) else p) ps)"

text \<open>\<^verbatim>\<open>obj[k]\<close> on a plain object: a missing property reads \<^verbatim>\<open>undefined\<close>.\<close>

definition obj_get :: "entries \<Rightarrow> string \<Rightarrow> jsval" where
  "obj_get ps k = (case map_of ps k of None \<Rightarrow> JUndefined | Some v \<Rightarrow> v)"

fun index_entries :: "nat \<Rightarrow> jsval list \<Rightarrow> entries" where
  "index_entries i [] = []"
| "index_entries i (x # xs) = (nat_to_string i, x) # index_entries (Suc i) xs"

text \<open>
  The own enumerable properties of a value: those of a plain object, the elements of an array
  and the characters of a string under their indices, none for the other primitives.
\<close>

definition own_entries :: "jsval \<Rightarrow> entries" where
  "own_entries v =
     (case v of
        JObj ps \<Rightarrow> ps
      | JArr xs \<Rightarrow> index_entries 0 xs
      | JStr s \<Rightarrow> index_entries 0 (map (\<lambda>c. JStr [c]) s)
      | _ \<Rightarrow> [])"

text \<open>\<^verbatim>\<open>Object.entries(v)\<close> raises a \<^verbatim>\<open>TypeError\<close> on \<^verbatim>\<open>null\<close> and \<^verbatim>\<open>undefined\<close>.\<close>

definition Object_entries :: "jsval \<Rightarrow> js_error + entries" where
  "Object_entries v =
     (if v = JUndefined then Inl (TypeError ''Cannot convert undefined or null to object'')
      else if v = JNull then Inl (TypeError ''Cannot convert undefined or null to object'')
      else Inr (own_entries v))"

text \<open>
  Object spread \<^verbatim>\<open>{...target, ...v}\<close>: the own enumerable properties of \<open>v\<close> are assigned
  in order; \<^verbatim>\<open>null\<close> and \<^verbatim>\<open>undefined\<close> spread to nothing.
\<close>

definition assign_all :: "entries \<Rightarrow> entries \<Rightarrow> entries" where
  "assign_all es target = fold (\<lambda>p m. obj_set (fst p) (snd p) m) es target"

definition spread :: "jsval \<Rightarrow> entries \<Rightarrow> entries" where
  "spread v target = assign_all (own_entries v) target"

text \<open>
  Reading a property \<^verbatim>\<open>v.k\<close>: a \<^verbatim>\<open>TypeError\<close> on \<^verbatim>\<open>null\<close> and \<^verbatim>\<open>undefined\<close>, the own
  property otherwise (the keys read by the logger, \<^verbatim>\<open>name\<close>, \<^verbatim>\<open>message\<close> and \<^verbatim>\<open>stack\<close>,
  are on no prototype of the modelled values).
\<close>

definition get_prop :: "jsval \<Rightarrow> string \<Rightarrow> js_error + jsval" where
  "get_prop v k =
     (case v of
        JUndefined \<Rightarrow> Inl (TypeError ''Cannot read properties of undefined'')
      | JNull \<Rightarrow> Inl (TypeError ''Cannot read properties of null'')
      | JObj ps \<Rightarrow> Inr (obj_get ps k)
      | JArr xs \<Rightarrow>
          Inr (if k = ''length'' then JNum (int (length xs)) else obj_get (index_entries 0 xs) k)
      | JStr s \<Rightarrow>
          Inr (if k = ''length'' then JNum (int (length s))
               else obj_get (index_entries 0 (map (\<lambda>c. JStr [c]) s)) k)
      | _ \<Rightarrow> Inr JUndefined)"

section \<open>The logger and its surroundings\<close>

record stats =
  sent :: nat
  failed :: nat
  skipped :: nat

text \<open>The argument of \<^verbatim>\<open>_logFailure\<close>; \<open>fi_endpoint\<close> is \<open>None\<close> where the source sets none.\<close>

record failure_info =
  fi_message :: entries
  fi_reason :: string
  fi_error :: string
  fi_endpoint :: "string option"
  fi_timestamp :: int

text \<open>
  A logger instance. \<open>wsConnection\<close> and \<open>wsMessageQueue\<close> are references into the store
  below, since \<^verbatim>\<open>child\<close> makes two loggers point at the same socket and the same array.
  Optional strings are \<open>None\<close> for \<^verbatim>\<open>undefined\<close>/\<^verbatim>\<open>null\<close>. \<open>wsAuthTimeout\<close> and \<open>wsAuthTimer\<close> are
  never set by the constructor.
\<close>

record logger =
  log_session_id :: string
  useWebSocket :: bool
  wsEndpoint :: "string option"
  wsConnection :: "nat option"
  wsMessageQueue :: nat
  wsConnecting :: bool
  wsReconnectAttempts :: nat
  wsMaxReconnectAttempts :: int
  endpoint :: "string option"
  accessId :: "string option"
  accessSecret :: "string option"
  host :: string
  facility :: string
  cfContext :: entries
  globalFields :: entries
  minLevel :: int
  consoleLog :: bool
  overloadConsole :: bool
  timeout :: int
  pendingPromises :: "nat list"
  stats :: stats
  failedMessages :: "failure_info list"
  maxFailedMessages :: int
  wsAuthenticated :: bool
  wsAuthTimeout :: "int option"
  wsAuthTimer :: "nat option"

datatype console_method = CLog | CWarn | CError

datatype timer_kind = AbortTimer | ReconnectTimer | AuthTimer

text \<open>
  What the logger does to the outside: a console line (its text is not modelled), a
  \<^verbatim>\<open>fetch\<close> (promise, URL, headers, body), a timer set (timer, purpose, delay) or cleared.
\<close>

datatype effect =
    Console console_method
  | Fetch nat string "(string \<times> string) list" string
  | SetTimeout nat timer_kind int
  | ClearTimeout nat

text \<open>
  A \<^verbatim>\<open>WebSocket\<close> object: its URL, its ready state (0 connecting, 1 open, 2 closing,
  3 closed) and the frames written to it.
\<close>

record ws_conn =
  ws_url :: string
  readyState :: nat
  frames :: "string list"

text \<open>
  The surroundings of the loggers: the trace of effects, the store of sockets and queue
  arrays, the next fresh identity, and the platform (which URLs \<^verbatim>\<open>new WebSocket\<close> accepts,
  what \<^verbatim>\<open>crypto.randomUUID\<close> returns, which \<^verbatim>\<open>console\<close> members are functions and which
  have been replaced).
\<close>

record world =
  trace :: "effect list"
  conns :: "nat \<rightharpoonup> ws_conn"
  queues :: "nat \<rightharpoonup> entries list"
  next_id :: nat
  url_ok :: "string \<Rightarrow> bool"
  uuid_of :: "nat \<Rightarrow> string"
  console_functions :: "string list"
  console_patched :: "string list"

type_synonym state = "world \<times> logger"

definition emit :: "effect \<Rightarrow> world \<Rightarrow> world" where
  "emit e w = w\<lparr>trace := trace w @ [e]\<rparr>"

definition bump :: "world \<Rightarrow> world" where
  "bump w = w\<lparr>next_id := Suc (next_id w)\<rparr>"

text \<open>\<^verbatim>\<open>this.consoleLog && !this.overloadConsole\<close>\<close>

definition mirrors :: "logger \<Rightarrow> bool" where
  "mirrors lg = (consoleLog lg \<and> \<not> overloadConsole lg)"

definition console :: "console_method \<Rightarrow> state \<Rightarrow> state" where
  "console m st = (if mirrors (snd st) then (emit (Console m) (fst st), snd st) else st)"

text \<open>Truthiness of an optional string: \<^verbatim>\<open>undefined\<close>, \<^verbatim>\<open>null\<close> and \<^verbatim>\<open>""\<close> are falsy.\<close>

definition truthy_str :: "string option \<Rightarrow> bool" where
  "truthy_str x = (case x of None \<Rightarrow> False | Some s \<Rightarrow> s \<noteq> [])"

section \<open>The record builder\<close>

definition reserved_keys :: "string list" where
  "reserved_keys =
     [''id'', ''timestamp'', ''version'', ''level'', ''host'', ''short_message'', ''full_message'']"

text \<open>\<^verbatim>\<open>key.startsWith('_') ? key : `_${key}`\<close>\<close>

definition field_name :: "string \<Rightarrow> string" where
  "field_name k = (case k of [] \<Rightarrow> ''_'' | c # cs \<Rightarrow> if c = CHR ''_'' then k else CHR ''_'' # k)"

text \<open>\<^verbatim>\<open>try { x = JSON.stringify(v) } catch (e) { x = String(v) }\<close>\<close>

definition serialize_or_coerce :: "jsval \<Rightarrow> jsval" where
  "serialize_or_coerce v = (case JSON_stringify v of Inl e \<Rightarrow> JStr (js_String v) | Inr t \<Rightarrow> t)"

definition full_message_field :: "jsval \<Rightarrow> jsval" where
  "full_message_field fm =
     JStr (js_String (if js_typeof fm \<noteq> ''string'' then serialize_or_coerce fm else fm))"

definition custom_value :: "jsval \<Rightarrow> jsval" where
  "custom_value v =
     (if v = JNull \<or> v = JUndefined then JNull
      else if js_typeof v = ''object'' then serialize_or_coerce v
      else v)"

text \<open>
  The literal the builder starts from. \<open>ts\<close> is the value of \<^verbatim>\<open>Date.now() / 1000\<close> when the
  record is built.
\<close>

definition base_fields :: "logger \<Rightarrow> jsval \<Rightarrow> int \<Rightarrow> jsval \<Rightarrow> entries" where
  "base_fields lg ts level shortMessage =
     [(''version'', JStr ''1.1''),
      (''host'', JStr (host lg)),
      (''short_message'', JStr (js_String shortMessage)),
      (''timestamp'', ts),
      (''level'', JNum level),
      (''facility'', JStr (facility lg)),
      (''_log_session_id'', JStr (log_session_id lg))]"

text \<open>The three loops over \<^verbatim>\<open>this.cfContext\<close>, \<^verbatim>\<open>this.globalFields\<close> and \<^verbatim>\<open>customFields\<close>.\<close>

fun add_context_fields :: "entries \<Rightarrow> entries \<Rightarrow> entries" where
  "add_context_fields [] m = m"
| "add_context_fields (p # ps) m =
     add_context_fields ps
       (if snd p \<noteq> JNull \<and> snd p \<noteq> JUndefined then obj_set (field_name (fst p)) (snd p) m else m)"

fun add_global_fields :: "entries \<Rightarrow> entries \<Rightarrow> entries" where
  "add_global_fields [] m = m"
| "add_global_fields (p # ps) m = add_global_fields ps (obj_set (field_name (fst p)) (snd p) m)"

fun add_custom_fields :: "entries \<Rightarrow> entries \<Rightarrow> entries" where
  "add_custom_fields [] m = m"
| "add_custom_fields (p # ps) m =
     add_custom_fields ps
       (if fst p \<in> set reserved_keys then m
        else obj_set (field_name (fst p)) (custom_value (snd p)) m)"

definition priv_buildGELFMessage ::
  "logger \<Rightarrow> jsval \<Rightarrow> int \<Rightarrow> jsval \<Rightarrow> jsval \<Rightarrow> jsval \<Rightarrow> js_error + entries" where
  "priv_buildGELFMessage lg ts level shortMessage fullMessage0 customFields0 =
     (let fullMessage = default_arg JNull fullMessage0;
          customFields = default_arg (JObj []) customFields0;
          m0 = base_fields lg ts level shortMessage;
          m1 = (if truthy fullMessage
                then obj_set ''full_message'' (full_message_field fullMessage) m0 else m0);
          m2 = add_context_fields (cfContext lg) m1;
          m3 = add_global_fields (globalFields lg) m2
      in case Object_entries customFields of
           Inl e \<Rightarrow> Inl e
         | Inr es \<Rightarrow> Inr (add_custom_fields es m3))"

section \<open>Failure and statistics tracking\<close>

definition inc_sent :: "logger \<Rightarrow> logger" where
  "inc_sent lg = lg\<lparr>stats := (stats lg)\<lparr>sent := Suc (sent (stats lg))\<rparr>\<rparr>"

definition inc_failed :: "logger \<Rightarrow> logger" where
  "inc_failed lg = lg\<lparr>stats := (stats lg)\<lparr>failed := Suc (failed (stats lg))\<rparr>\<rparr>"

definition inc_skipped :: "logger \<Rightarrow> logger" where
  "inc_skipped lg = lg\<lparr>stats := (stats lg)\<lparr>skipped := Suc (skipped (stats lg))\<rparr>\<rparr>"

text \<open>\<^verbatim>\<open>_logFailure\<close>: push, drop the oldest entry past the limit, mirror to the console.\<close>

definition priv_logFailure :: "state \<Rightarrow> failure_info \<Rightarrow> state" where
  "priv_logFailure st failureInfo =
     (let lg = snd st;
          pushed = failedMessages lg @ [failureInfo];
          kept = (if int (length pushed) > maxFailedMessages lg then tl pushed else pushed)
      in console CError (fst st, lg\<lparr>failedMessages := kept\<rparr>))"

record stats_report =
  r_sent :: nat
  r_failed :: nat
  r_skipped :: nat
  r_failedMessagesCount :: nat

definition getStats :: "logger \<Rightarrow> stats_report" where
  "getStats lg =
     \<lparr>r_sent = sent (stats lg), r_failed = failed (stats lg), r_skipped = skipped (stats lg),
      r_failedMessagesCount = length (failedMessages lg)\<rparr>"

text \<open>
  \<^verbatim>\<open>xs.slice(start)\<close>: a negative start counts from the end, and both ends are clamped.
\<close>

definition js_slice_from :: "int \<Rightarrow> 'a list \<Rightarrow> 'a list" where
  "js_slice_from start xs =
     (let n = int (length xs);
          k = (if start < 0 then max (n + start) 0 else min start n)
      in drop (nat k) xs)"

text \<open>
  \<^verbatim>\<open>getFailedMessages(limit = null)\<close>: \<open>None\<close> is the omitted (or \<^verbatim>\<open>null\<close>) limit; the test
  \<^verbatim>\<open>limit ? ... : ...\<close> is the truthiness of a number.
\<close>

definition getFailedMessages :: "logger \<Rightarrow> int option \<Rightarrow> failure_info list" where
  "getFailedMessages lg limit =
     (case limit of
        None \<Rightarrow> failedMessages lg
      | Some l \<Rightarrow> if l \<noteq> 0 then js_slice_from (- l) (failedMessages lg) else failedMessages lg)"

text \<open>\<^verbatim>\<open>getFailureSummary\<close>: the literal it starts from, and \<^verbatim>\<open>summary[k]++\<close>.\<close>

definition summary_init :: "(string \<times> nat) list" where
  "summary_init =
     [(''no_endpoint'', 0), (''http_error'', 0), (''timeout'', 0), (''network_error'', 0),
      (''other'', 0)]"

fun incr_key :: "string \<Rightarrow> (string \<times> nat) list \<Rightarrow> (string \<times> nat) list" where
  "incr_key k [] = []"
| "incr_key k (p # ps) = (if fst p = k then (fst p, Suc (snd p)) # ps else p # incr_key k ps)"

definition tally :: "(string \<times> nat) list \<Rightarrow> failure_info \<Rightarrow> (string \<times> nat) list" where
  "tally summary failure =
     (if fi_reason failure \<in> set (map fst summary) then incr_key (fi_reason failure) summary
      else incr_key ''other'' summary)"

definition getFailureSummary :: "logger \<Rightarrow> (string \<times> nat) list" where
  "getFailureSummary lg = foldl tally summary_init (failedMessages lg)"

definition clearFailedMessages :: "logger \<Rightarrow> logger" where
  "clearFailedMessages lg = lg\<lparr>failedMessages := []\<rparr>"

definition resetStats :: "logger \<Rightarrow> logger" where
  "resetStats lg = lg\<lparr>stats := \<lparr>sent = 0, failed = 0, skipped = 0\<rparr>, failedMessages := []\<rparr>"

section \<open>The persistent-stream transport\<close>

definition queue_of :: "world \<Rightarrow> nat \<Rightarrow> entries list" where
  "queue_of w a = (case queues w a of None \<Rightarrow> [] | Some q \<Rightarrow> q)"

definition set_queue :: "nat \<Rightarrow> entries list \<Rightarrow> world \<Rightarrow> world" where
  "set_queue a q w = w\<lparr>queues := (queues w)(a \<mapsto> q)\<rparr>"

text \<open>The ready state of \<^verbatim>\<open>this.wsConnection\<close>; \<open>None\<close> when the logger holds no socket.\<close>

definition conn_state :: "world \<Rightarrow> logger \<Rightarrow> nat option" where
  "conn_state w lg =
     (case wsConnection lg of
        None \<Rightarrow> None
      | Some a \<Rightarrow> (case conns w a of None \<Rightarrow> None | Some c \<Rightarrow> Some (readyState c)))"

text \<open>
  \<^verbatim>\<open>this.wsConnection.send(data)\<close>: a \<^verbatim>\<open>TypeError\<close> when the reference is \<^verbatim>\<open>null\<close>, an
  \<^verbatim>\<open>InvalidStateError\<close> while the socket is connecting, a frame written when it is open,
  and nothing once it is closing or closed.
\<close>

definition ws_send :: "world \<Rightarrow> nat option \<Rightarrow> string \<Rightarrow> js_error + world" where
  "ws_send w r payload =
     (case r of
        None \<Rightarrow> Inl (TypeError ''Cannot read properties of null'')
      | Some a \<Rightarrow>
          (case conns w a of
             None \<Rightarrow> Inl (TypeError ''Cannot read properties of null'')
           | Some c \<Rightarrow>
               if readyState c = 0 then Inl (InvalidStateError ''Still in CONNECTING state'')
               else if readyState c = 1
               then Inr (w\<lparr>conns := (conns w)(a \<mapsto> c\<lparr>frames := frames c @ [payload]\<rparr>)\<rparr>)
               else Inr w))"

text \<open>\<^verbatim>\<open>this.wsConnection.send(JSON.stringify(message))\<close>\<close>

definition ws_transmit :: "world \<Rightarrow> nat option \<Rightarrow> jsval \<Rightarrow> js_error + world" where
  "ws_transmit w r v =
     (case JSON_stringify v of
        Inl e \<Rightarrow> Inl e
      | Inr body \<Rightarrow> ws_send w r (js_String body))"

text \<open>
  The \<^verbatim>\<open>while\<close> loop of \<^verbatim>\<open>_processWebSocketQueue\<close> over the queued records: it returns what
  is left in the queue. A failed send puts the record back at the head and stops.
\<close>

fun drain :: "int \<Rightarrow> entries list \<Rightarrow> state \<Rightarrow> entries list \<times> state" where
  "drain now [] st = ([], st)"
| "drain now (message # rest) st =
     (case ws_transmit (fst st) (wsConnection (snd st)) (JObj message) of
        Inr w' \<Rightarrow> drain now rest (w', inc_sent (snd st))
      | Inl e \<Rightarrow>
          (message # rest,
           priv_logFailure (fst st, inc_failed (snd st))
             \<lparr>fi_message = message, fi_reason = ''ws_send_error'', fi_error = error_message e,
              fi_endpoint = None, fi_timestamp = now\<rparr>))"

definition priv_processWebSocketQueue :: "int \<Rightarrow> state \<Rightarrow> state" where
  "priv_processWebSocketQueue now st =
     (if conn_state (fst st) (snd st) = Some 1
      then (let r = drain now (queue_of (fst st) (wsMessageQueue (snd st))) st
            in (set_queue (wsMessageQueue (snd st)) (fst r) (fst (snd r)), snd (snd r)))
      else st)"

text \<open>
  \<^verbatim>\<open>new WebSocket(url)\<close>: a fresh socket in state 0, or a \<^verbatim>\<open>SyntaxError\<close> when the platform
  refuses the URL (\<^verbatim>\<open>undefined\<close> is read as the text \<^verbatim>\<open>undefined\<close>).
\<close>

definition new_WebSocket :: "world \<Rightarrow> string option \<Rightarrow> js_error + (nat \<times> world)" where
  "new_WebSocket w url =
     (let u = (case url of None \<Rightarrow> ''undefined'' | Some s \<Rightarrow> s) in
      if url_ok w u
      then Inr (next_id w,
                bump (w\<lparr>conns := (conns w)(next_id w \<mapsto> \<lparr>ws_url = u, readyState = 0, frames = []\<rparr>)\<rparr>))
      else Inl (SyntaxError ''Invalid URL''))"

text \<open>
  \<^verbatim>\<open>_connectWebSocket\<close>. On the socket it creates it installs \<^verbatim>\<open>onopen\<close>, \<^verbatim>\<open>onclose\<close> and
  \<^verbatim>\<open>onerror\<close> (the functions \<open>ws_onopen\<close>, \<open>ws_onclose\<close> and \<open>ws_onerror\<close> below, run by
  \<open>ws_deliver\<close>); it installs no \<^verbatim>\<open>onmessage\<close>.
\<close>

definition priv_connectWebSocket :: "state \<Rightarrow> state" where
  "priv_connectWebSocket st =
     (if wsConnecting (snd st) then st
      else (case new_WebSocket (fst st) (wsEndpoint (snd st)) of
              Inr r \<Rightarrow> (snd r, (snd st)\<lparr>wsConnecting := True, wsConnection := Some (fst r)\<rparr>)
            | Inl e \<Rightarrow> console CError (fst st, (snd st)\<lparr>wsConnecting := False\<rparr>)))"

text \<open>The handshake message \<^verbatim>\<open>{type: 'auth', access_id, access_secret, log_session_id}\<close>.\<close>

definition auth_message :: "logger \<Rightarrow> jsval" where
  "auth_message lg =
     JObj [(''type'', JStr ''auth''),
           (''access_id'', (case accessId lg of None \<Rightarrow> JUndefined | Some s \<Rightarrow> JStr s)),
           (''access_secret'', (case accessSecret lg of None \<Rightarrow> JUndefined | Some s \<Rightarrow> JStr s)),
           (''log_session_id'', JStr (log_session_id lg))]"

text \<open>Truthiness of \<^verbatim>\<open>this.wsAuthTimeout\<close>, a number or \<^verbatim>\<open>undefined\<close>.\<close>

definition truthy_num :: "int option \<Rightarrow> bool" where
  "truthy_num x = (case x of None \<Rightarrow> False | Some n \<Rightarrow> n \<noteq> 0)"

text \<open>
  The statements after the handshake is written (lines 452 to 459). When
  \<^verbatim>\<open>this.wsAuthTimeout\<close> is falsy the right-hand side \<^verbatim>\<open>config?.wsAuthTimeout || 5000\<close> is
  evaluated; \<^verbatim>\<open>config\<close> is the constructor's parameter and no binding of that name is in
  scope in \<^verbatim>\<open>_connectWebSocket\<close>, so the evaluation raises a \<^verbatim>\<open>ReferenceError\<close> (optional
  chaining does not guard an undeclared identifier). Otherwise the timer is started.
\<close>

definition start_auth_timer :: "state \<Rightarrow> (js_error \<times> state) + state" where
  "start_auth_timer st =
     (case wsAuthTimeout (snd st) of
        None \<Rightarrow> Inl (ReferenceError ''config is not defined'', st)
      | Some t \<Rightarrow>
          if t = 0 then Inl (ReferenceError ''config is not defined'', st)
          else Inr (emit (SetTimeout (next_id (fst st)) AuthTimer t) (bump (fst st)),
                    (snd st)\<lparr>wsAuthTimer := Some (next_id (fst st))\<rparr>))"

text \<open>The \<^verbatim>\<open>onopen\<close> handler.\<close>

definition ws_onopen :: "int \<Rightarrow> state \<Rightarrow> state" where
  "ws_onopen now st =
     (let st1 = console CLog (fst st, (snd st)\<lparr>wsConnecting := False, wsReconnectAttempts := 0\<rparr>);
          st2 = (fst st1, (snd st1)\<lparr>wsAuthenticated := False\<rparr>)
      in if truthy_str (accessId (snd st2)) \<and> truthy_str (accessSecret (snd st2))
         then (case ws_transmit (fst st2) (wsConnection (snd st2)) (auth_message (snd st2)) of
                 Inl e \<Rightarrow> priv_processWebSocketQueue now st2
               | Inr w' \<Rightarrow>
                   (case start_auth_timer (w', snd st2) of
                      Inl r \<Rightarrow> priv_processWebSocketQueue now (snd r)
                    | Inr st3 \<Rightarrow> st3))
         else priv_processWebSocketQueue now st2)"

text \<open>The callback of the authentication timer.\<close>

definition auth_timer_fired :: "int \<Rightarrow> state \<Rightarrow> state" where
  "auth_timer_fired now st =
     (if \<not> wsAuthenticated (snd st)
      then priv_processWebSocketQueue now (console CWarn st)
      else st)"

text \<open>The \<^verbatim>\<open>onclose\<close> handler: reconnection after \<^verbatim>\<open>min(1000 * 2^attempts, 30000)\<close> ms.\<close>

definition ws_onclose :: "state \<Rightarrow> state" where
  "ws_onclose st =
     (let st1 = console CLog (fst st, (snd st)\<lparr>wsConnecting := False\<rparr>);
          lg = snd st1
      in if int (wsReconnectAttempts lg) < wsMaxReconnectAttempts lg
         then (let n = Suc (wsReconnectAttempts lg);
                   delay = min (1000 * 2 ^ n) 30000
               in (emit (SetTimeout (next_id (fst st1)) ReconnectTimer delay) (bump (fst st1)),
                   lg\<lparr>wsReconnectAttempts := n\<rparr>))
         else st1)"

definition ws_onerror :: "state \<Rightarrow> state" where
  "ws_onerror st = console CError (fst st, (snd st)\<lparr>wsConnecting := False\<rparr>)"

text \<open>
  An event on socket \<open>a\<close>, delivered to the logger that created it. The platform moves the
  ready state and runs the installed handler. A message event carries the payload as
  \<^verbatim>\<open>JSON.parse\<close> reads it (\<open>None\<close> when it does not parse). No handler runs for it: the only
  assignment to \<^verbatim>\<open>onmessage\<close> in the source stands in \<^verbatim>\<open>_setupConsoleOverload\<close> and targets
  \<^verbatim>\<open>GELFLogger.wsConnection\<close>, not a socket (see \<open>priv_setupConsoleOverload\<close>).
\<close>

datatype ws_event = EvOpen | EvClose | EvError | EvMessage "jsval option"

definition set_readyState :: "nat \<Rightarrow> nat \<Rightarrow> world \<Rightarrow> world" where
  "set_readyState a rs w =
     (case conns w a of
        None \<Rightarrow> w
      | Some c \<Rightarrow> w\<lparr>conns := (conns w)(a \<mapsto> c\<lparr>readyState := rs\<rparr>)\<rparr>)"

definition ws_deliver :: "int \<Rightarrow> nat \<Rightarrow> ws_event \<Rightarrow> state \<Rightarrow> state" where
  "ws_deliver now a ev st =
     (case ev of
        EvOpen \<Rightarrow> ws_onopen now (set_readyState a 1 (fst st), snd st)
      | EvClose \<Rightarrow> ws_onclose (set_readyState a 3 (fst st), snd st)
      | EvError \<Rightarrow> ws_onerror st
      | EvMessage parsed \<Rightarrow> st)"

text \<open>\<^verbatim>\<open>_sendWebSocket\<close>\<close>

definition priv_sendWebSocket :: "int \<Rightarrow> state \<Rightarrow> entries \<Rightarrow> state" where
  "priv_sendWebSocket now st gelfMessage =
     (if \<not> truthy_str (wsEndpoint (snd st))
      then priv_logFailure (fst st, inc_failed (snd st))
             \<lparr>fi_message = gelfMessage, fi_reason = ''no_ws_endpoint'',
              fi_error = ''No WebSocket endpoint configured'', fi_endpoint = None,
              fi_timestamp = now\<rparr>
      else (let qa = wsMessageQueue (snd st);
                st1 = (set_queue qa (queue_of (fst st) qa @ [gelfMessage]) (fst st), snd st);
                rs = conn_state (fst st1) (snd st1)
            in if rs = Some 1 then priv_processWebSocketQueue now st1
               else if rs = None \<or> rs = Some 3 then priv_connectWebSocket st1
               else st1))"

section \<open>The one-shot transport\<close>

text \<open>\<^verbatim>\<open>_cleanupPromises\<close>: the filter's callback returns \<^verbatim>\<open>isPending\<close> before any of the
  reactions it registers can run, so every promise is kept.\<close>

definition priv_cleanupPromises :: "state \<Rightarrow> state" where
  "priv_cleanupPromises st =
     (fst st, (snd st)\<lparr>pendingPromises := filter (\<lambda>p. True) (pendingPromises (snd st))\<rparr>)"

definition request_headers :: "logger \<Rightarrow> (string \<times> string) list" where
  "request_headers lg =
     [(''Content-Type'', ''application/json''), (''Accept'', ''application/json'')] @
     (case accessId lg of
        None \<Rightarrow> []
      | Some i \<Rightarrow>
          (case accessSecret lg of
             None \<Rightarrow> []
           | Some s \<Rightarrow>
               if i \<noteq> [] \<and> s \<noteq> []
               then [(''CF-Access-Client-Id'', i), (''CF-Access-Client-Secret'', s)]
               else []))"

definition reject_no_endpoint :: "int \<Rightarrow> state \<Rightarrow> entries \<Rightarrow> state" where
  "reject_no_endpoint now st gelfMessage =
     priv_logFailure (fst st, inc_failed (snd st))
       \<lparr>fi_message = gelfMessage, fi_reason = ''no_endpoint'',
        fi_error = ''No GELF endpoint configured'', fi_endpoint = None, fi_timestamp = now\<rparr>"

text \<open>
  The request is issued: the abort timer is set, the body serialized (which may raise, with
  the timer already set), the \<^verbatim>\<open>fetch\<close> started and its promise tracked.
\<close>

definition issue_request :: "state \<Rightarrow> string \<Rightarrow> entries \<Rightarrow> (js_error \<times> state) + state" where
  "issue_request st url gelfMessage =
     (let lg = snd st;
          tid = next_id (fst st);
          w1 = emit (SetTimeout tid AbortTimer (timeout lg)) (bump (fst st))
      in case JSON_stringify (JObj gelfMessage) of
           Inl e \<Rightarrow> Inl (e, (w1, lg))
         | Inr body \<Rightarrow>
             (let pid = next_id w1;
                  w2 = emit (Fetch pid url (request_headers lg) (js_String body)) (bump w1);
                  lg2 = lg\<lparr>pendingPromises := pendingPromises lg @ [pid]\<rparr>
              in Inr (if length (pendingPromises lg2) > 100 then priv_cleanupPromises (w2, lg2)
                      else (w2, lg2))))"

text \<open>\<^verbatim>\<open>_send\<close>, up to its return: the stream transport when it is selected, else the one-shot
  send (lines 288 to 385).\<close>

definition send_one_shot :: "int \<Rightarrow> state \<Rightarrow> entries \<Rightarrow> (js_error \<times> state) + state" where
  "send_one_shot now st gelfMessage =
     (case endpoint (snd st) of
        None \<Rightarrow> Inr (reject_no_endpoint now st gelfMessage)
      | Some url \<Rightarrow>
          if url = [] then Inr (reject_no_endpoint now st gelfMessage)
          else issue_request st url gelfMessage)"

definition priv_send :: "int \<Rightarrow> state \<Rightarrow> entries \<Rightarrow> (js_error \<times> state) + state" where
  "priv_send now st gelfMessage =
     (if useWebSocket (snd st) then Inr (priv_sendWebSocket now st gelfMessage)
      else send_one_shot now st gelfMessage)"







section \<open>The log call\<close>

definition EMERGENCY :: int where "EMERGENCY = 0"
definition ALERT :: int where "ALERT = 1"
definition CRITICAL :: int where "CRITICAL = 2"
definition ERROR :: int where "ERROR = 3"
definition WARNING :: int where "WARNING = 4"
definition NOTICE :: int where "NOTICE = 5"
definition INFO :: int where "INFO = 6"
definition DEBUG :: int where "DEBUG = 7"

text \<open>
  The body of the \<^verbatim>\<open>try\<close> block of \<^verbatim>\<open>_log\<close>. \<open>Inl\<close> carries the error raised together with the
  state reached when it was raised. \<open>now\<close> is \<^verbatim>\<open>Date.now()\<close>, \<open>ts\<close> is \<^verbatim>\<open>Date.now() / 1000\<close>.
  The console mirror builds its line with \<^verbatim>\<open>JSON.parse\<close>/\<^verbatim>\<open>JSON.stringify\<close> under their own
  \<^verbatim>\<open>try\<close> and with template literals, which raise on none of the modelled values.
\<close>

definition log_try ::
  "int \<Rightarrow> jsval \<Rightarrow> state \<Rightarrow> int \<Rightarrow> jsval \<Rightarrow> jsval \<Rightarrow> jsval \<Rightarrow> (js_error \<times> state) + state" where
  "log_try now ts st level shortMessage fullMessage customFields =
     (if level > minLevel (snd st) then Inr (fst st, inc_skipped (snd st))
      else (case priv_buildGELFMessage (snd st) ts level shortMessage fullMessage customFields of
              Inl e \<Rightarrow> Inl (e, st)
            | Inr gelfMessage \<Rightarrow>
                (case priv_send now st gelfMessage of
                   Inl r \<Rightarrow> Inl r
                 | Inr st1 \<Rightarrow> Inr (console CLog st1))))"

text \<open>
  What a \<^verbatim>\<open>catch\<close> clause can receive: an \<^verbatim>\<open>Error\<close> instance, or any other value, which
  \<^verbatim>\<open>throw\<close> accepts (code run while an argument is inspected, a getter or a \<^verbatim>\<open>toJSON\<close>, may
  throw \<^verbatim>\<open>null\<close>). \<open>thrown_message\<close> is the read \<^verbatim>\<open>error.message\<close>, which itself raises on
  \<^verbatim>\<open>null\<close> and \<^verbatim>\<open>undefined\<close>.
\<close>

datatype thrown = Error_instance js_error | Thrown_value jsval

definition thrown_message :: "thrown \<Rightarrow> js_error + jsval" where
  "thrown_message t =
     (case t of
        Error_instance e \<Rightarrow> Inr (JStr (error_message e))
      | Thrown_value v \<Rightarrow> get_prop v ''message'')"

text \<open>
  The \<^verbatim>\<open>catch\<close> block of \<^verbatim>\<open>_log\<close>, entered with the thrown value and the state reached when it
  was thrown: \<^verbatim>\<open>failed\<close> is incremented, then, when console lines are mirrored,
  \<^verbatim>\<open>error.message\<close> is read for the console line. An exception of that read leaves \<^verbatim>\<open>_log\<close>.
\<close>

definition log_catch :: "thrown \<Rightarrow> state \<Rightarrow> (js_error \<times> state) + state" where
  "log_catch error st =
     (let st1 = (fst st, inc_failed (snd st))
      in if mirrors (snd st1)
         then (case thrown_message error of
                 Inl e \<Rightarrow> Inl (e, st1)
               | Inr msg \<Rightarrow> Inr (emit (Console CError) (fst st1), snd st1))
         else Inr st1)"

text \<open>
  \<^verbatim>\<open>_log\<close>: the \<^verbatim>\<open>try\<close> block and its \<^verbatim>\<open>catch\<close>. What \<open>log_try\<close> raises on plain data is an
  \<^verbatim>\<open>Error\<close> instance.
\<close>

definition priv_log ::
  "int \<Rightarrow> jsval \<Rightarrow> state \<Rightarrow> int \<Rightarrow> jsval \<Rightarrow> jsval \<Rightarrow> jsval \<Rightarrow> (js_error \<times> state) + state" where
  "priv_log now ts st level shortMessage fullMessage0 customFields0 =
     (case log_try now ts st level shortMessage
             (default_arg JNull fullMessage0) (default_arg (JObj []) customFields0) of
        Inr st1 \<Rightarrow> Inr st1
      | Inl r \<Rightarrow> log_catch (Error_instance (fst r)) (snd r))"

subsection \<open>The public logging methods\<close>

definition emergency ::
  "int \<Rightarrow> jsval \<Rightarrow> state \<Rightarrow> jsval \<Rightarrow> jsval \<Rightarrow> jsval \<Rightarrow> (js_error \<times> state) + state" where
  "emergency now ts st shortMessage fullMessage customFields =
     priv_log now ts st EMERGENCY shortMessage
       (default_arg JNull fullMessage) (default_arg (JObj []) customFields)"

definition alert ::
  "int \<Rightarrow> jsval \<Rightarrow> state \<Rightarrow> jsval \<Rightarrow> jsval \<Rightarrow> jsval \<Rightarrow> (js_error \<times> state) + state" where
  "alert now ts st shortMessage fullMessage customFields =
     priv_log now ts st ALERT shortMessage
       (default_arg JNull fullMessage) (default_arg (JObj []) customFields)"

definition critical ::
  "int \<Rightarrow> jsval \<Rightarrow> state \<Rightarrow> jsval \<Rightarrow> jsval \<Rightarrow> jsval \<Rightarrow> (js_error \<times> state) + state" where
  "critical now ts st shortMessage fullMessage customFields =
     priv_log now ts st CRITICAL shortMessage
       (default_arg JNull fullMessage) (default_arg (JObj []) customFields)"

definition error ::
  "int \<Rightarrow> jsval \<Rightarrow> state \<Rightarrow> jsval \<Rightarrow> jsval \<Rightarrow> jsval \<Rightarrow> (js_error \<times> state) + state" where
  "error now ts st shortMessage fullMessage customFields =
     priv_log now ts st ERROR shortMessage
       (default_arg JNull fullMessage) (default_arg (JObj []) customFields)"

definition warning ::
  "int \<Rightarrow> jsval \<Rightarrow> state \<Rightarrow> jsval \<Rightarrow> jsval \<Rightarrow> jsval \<Rightarrow> (js_error \<times> state) + state" where
  "warning now ts st shortMessage fullMessage customFields =
     priv_log now ts st WARNING shortMessage
       (default_arg JNull fullMessage) (default_arg (JObj []) customFields)"

definition warn ::
  "int \<Rightarrow> jsval \<Rightarrow> state \<Rightarrow> jsval \<Rightarrow> jsval \<Rightarrow> jsval \<Rightarrow> (js_error \<times> state) + state" where
  "warn now ts st shortMessage fullMessage customFields =
     warning now ts st shortMessage
       (default_arg JNull fullMessage) (default_arg (JObj []) customFields)"

definition notice ::
  "int \<Rightarrow> jsval \<Rightarrow> state \<Rightarrow> jsval \<Rightarrow> jsval \<Rightarrow> jsval \<Rightarrow> (js_error \<times> state) + state" where
  "notice now ts st shortMessage fullMessage customFields =
     priv_log now ts st NOTICE shortMessage
       (default_arg JNull fullMessage) (default_arg (JObj []) customFields)"

definition info ::
  "int \<Rightarrow> jsval \<Rightarrow> state \<Rightarrow> jsval \<Rightarrow> jsval \<Rightarrow> jsval \<Rightarrow> (js_error \<times> state) + state" where
  "info now ts st shortMessage fullMessage customFields =
     priv_log now ts st INFO shortMessage
       (default_arg JNull fullMessage) (default_arg (JObj []) customFields)"

definition log ::
  "int \<Rightarrow> jsval \<Rightarrow> state \<Rightarrow> jsval \<Rightarrow> jsval \<Rightarrow> jsval \<Rightarrow> (js_error \<times> state) + state" where
  "log now ts st shortMessage fullMessage customFields =
     info now ts st shortMessage
       (default_arg JNull fullMessage) (default_arg (JObj []) customFields)"

definition debug ::
  "int \<Rightarrow> jsval \<Rightarrow> state \<Rightarrow> jsval \<Rightarrow> jsval \<Rightarrow> jsval \<Rightarrow> (js_error \<times> state) + state" where
  "debug now ts st shortMessage fullMessage customFields =
     priv_log now ts st DEBUG shortMessage
       (default_arg JNull fullMessage) (default_arg (JObj []) customFields)"

text \<open>
  \<^verbatim>\<open>exception(error, customFields = {})\<close>. The object literal reads \<^verbatim>\<open>error.name\<close>,
  \<^verbatim>\<open>error.message\<close> and \<^verbatim>\<open>error.stack\<close> before \<^verbatim>\<open>_log\<close> is entered, outside its \<^verbatim>\<open>try\<close>; on
  plain data the reads run no getter and raise on \<^verbatim>\<open>null\<close> and \<^verbatim>\<open>undefined\<close> only.
\<close>

definition exception ::
  "int \<Rightarrow> jsval \<Rightarrow> state \<Rightarrow> jsval \<Rightarrow> jsval \<Rightarrow> (js_error \<times> state) + state" where
  "exception now ts st err customFields0 =
     (let customFields = default_arg (JObj []) customFields0 in
      case get_prop err ''name'' of
        Inl e \<Rightarrow> Inl (e, st)
      | Inr nm \<Rightarrow>
          (case get_prop err ''message'' of
             Inl e \<Rightarrow> Inl (e, st)
           | Inr msg \<Rightarrow>
               (case get_prop err ''stack'' of
                  Inl e \<Rightarrow> Inl (e, st)
                | Inr stack \<Rightarrow>
                    priv_log now ts st ERROR msg stack
                      (JObj (obj_set ''exception_stack'' stack
                              (obj_set ''exception_message'' msg
                                (obj_set ''exception_type'' nm (spread customFields []))))))))"

section \<open>Construction and child loggers\<close>

text \<open>
  \<^verbatim>\<open>_setupConsoleOverload(logger)\<close> is a static method, and the arrow functions in it take
  their \<^verbatim>\<open>this\<close> from it: \<^verbatim>\<open>this\<close> is the class. For each console member that is a function
  the loop replaces the member and then assigns \<^verbatim>\<open>this.wsConnection.onmessage\<close>; the class
  declares no static \<^verbatim>\<open>wsConnection\<close>, so the target is \<^verbatim>\<open>undefined\<close> and the assignment
  raises a \<^verbatim>\<open>TypeError\<close>, after the member was replaced.
\<close>

definition class_wsConnection :: "nat option" where
  "class_wsConnection = None"

fun overload_loop :: "string list \<Rightarrow> world \<Rightarrow> (js_error \<times> world) + world" where
  "overload_loop [] w = Inr w"
| "overload_loop (methodName # rest) w =
     (if methodName \<in> set (console_functions w)
      then (let w1 = w\<lparr>console_patched := console_patched w @ [methodName]\<rparr> in
            case class_wsConnection of
              None \<Rightarrow> Inl (TypeError ''Cannot set properties of undefined'', w1)
            | Some a \<Rightarrow> overload_loop rest w1)
      else overload_loop rest w)"

definition priv_setupConsoleOverload :: "world \<Rightarrow> (js_error \<times> world) + world" where
  "priv_setupConsoleOverload w =
     overload_loop [''log'', ''info'', ''warn'', ''error'', ''debug'', ''trace'', ''dir'', ''assert''] w"

text \<open>The environment object and the request descriptor the constructor reads.\<close>

record env =
  LOG_SESSION_ID :: "string option"
  GELF_LOGGING_URL :: "string option"
  ACCESS_ID :: "string option"
  ACCESS_SECRET :: "string option"
  WORKER_NAME :: "string option"
  ENVIRONMENT :: "string option"
  FUNCTION_NAME :: "string option"

record cf_props =
  cf_colo :: jsval
  cf_longitude :: jsval
  cf_latitude :: jsval
  cf_country :: jsval
  cf_city :: jsval
  cf_region :: jsval
  cf_asn :: jsval
  cf_asOrganization :: jsval

text \<open>
  \<open>rq_url\<close> is the path name and host name \<^verbatim>\<open>new URL(request.url)\<close> gives, \<open>None\<close> when it
  raises; \<open>rq_headers\<close> is \<^verbatim>\<open>headers.get\<close>.
\<close>

record request =
  rq_url :: "(string \<times> string) option"
  rq_method :: jsval
  rq_headers :: "(string \<Rightarrow> string option) option"
  rq_cf :: "cf_props option"

record config =
  cfg_env :: "env option"
  cfg_request :: "request option"
  cfg_log_session_id :: "string option"
  cfg_endpoint :: "string option"
  cfg_useWebSocket :: "bool option"
  cfg_wsEndpoint :: "string option"
  cfg_wsMaxReconnectAttempts :: "int option"
  cfg_host :: "string option"
  cfg_facility :: "string option"
  cfg_globalFields :: "entries option"
  cfg_minLevel :: "int option"
  cfg_consoleLog :: "bool option"
  cfg_overloadConsole :: "bool option"
  cfg_timeout :: "int option"
  cfg_maxFailedMessages :: "int option"

text \<open>\<^verbatim>\<open>a || b\<close> at the types the constructor uses it, and \<^verbatim>\<open>config.env?.X\<close>.\<close>

definition or_str :: "string option \<Rightarrow> string option \<Rightarrow> string option" where
  "or_str a b = (if truthy_str a then a else b)"

definition str_or :: "string option \<Rightarrow> string \<Rightarrow> string" where
  "str_or a d = (case a of None \<Rightarrow> d | Some s \<Rightarrow> if s = [] then d else s)"

definition int_or :: "int option \<Rightarrow> int \<Rightarrow> int" where
  "int_or a d = (case a of None \<Rightarrow> d | Some n \<Rightarrow> if n = 0 then d else n)"

definition js_or :: "jsval \<Rightarrow> jsval \<Rightarrow> jsval" where
  "js_or a b = (if truthy a then a else b)"

definition env_get :: "env option \<Rightarrow> (env \<Rightarrow> string option) \<Rightarrow> string option" where
  "env_get e f = (case e of None \<Rightarrow> None | Some v \<Rightarrow> f v)"

definition hget :: "(string \<Rightarrow> string option) \<Rightarrow> string \<Rightarrow> jsval" where
  "hget h n = (case h n of None \<Rightarrow> JNull | Some s \<Rightarrow> JStr s)"

definition set_if :: "bool \<Rightarrow> string \<Rightarrow> jsval \<Rightarrow> entries \<Rightarrow> entries" where
  "set_if c k v m = (if c then obj_set k v m else m)"

definition env_context :: "env option \<Rightarrow> entries" where
  "env_context e =
     (let c1 = (case env_get e ENVIRONMENT of
                  None \<Rightarrow> []
                | Some s \<Rightarrow> set_if (s \<noteq> []) ''environment'' (JStr s) [])
      in case env_get e FUNCTION_NAME of
           None \<Rightarrow> c1
         | Some s \<Rightarrow> set_if (s \<noteq> []) ''function_name'' (JStr s) c1)"

definition cf_context :: "cf_props \<Rightarrow> entries \<Rightarrow> entries" where
  "cf_context cf c0 =
     (let c1 = set_if (truthy (cf_colo cf)) ''colo'' (cf_colo cf) c0;
          c2 = set_if (cf_longitude cf \<noteq> JUndefined) ''longitude'' (cf_longitude cf) c1;
          c3 = set_if (cf_latitude cf \<noteq> JUndefined) ''latitude'' (cf_latitude cf) c2;
          c4 = set_if (truthy (cf_country cf)) ''country'' (cf_country cf) c3;
          c5 = set_if (truthy (cf_city cf)) ''city'' (cf_city cf) c4;
          c6 = set_if (truthy (cf_region cf)) ''region'' (cf_region cf) c5;
          c7 = set_if (truthy (cf_asn cf)) ''asn'' (cf_asn cf) c6
      in set_if (truthy (cf_asOrganization cf)) ''as_organization'' (cf_asOrganization cf) c7)"

definition request_context :: "request \<Rightarrow> entries \<Rightarrow> entries" where
  "request_context rq c0 =
     (let c1 = (case rq_url rq of
                  None \<Rightarrow> c0
                | Some u \<Rightarrow>
                    obj_set ''request_host'' (JStr (snd u))
                      (obj_set ''request_path'' (JStr (fst u)) c0));
          c2 = obj_set ''request_method'' (rq_method rq) c1;
          c3 = (case rq_headers rq of
                  None \<Rightarrow> c2
                | Some h \<Rightarrow>
                    (let c31 = obj_set ''request_id''
                                 (js_or (hget h ''cf-ray'') (hget h ''x-request-id'')) c2;
                         c32 = obj_set ''user_agent'' (hget h ''user-agent'') c31;
                         clientIp = js_or (hget h ''cf-connecting-ip'') (hget h ''x-forwarded-for'')
                     in set_if (truthy clientIp) ''client_ip'' clientIp c32))
      in case rq_cf rq of None \<Rightarrow> c3 | Some cf \<Rightarrow> cf_context cf c3)"

text \<open>
  \<^verbatim>\<open>new GELFLogger(config)\<close>. It draws a UUID when no session identifier is given, allocates
  the queue array, and warns on the console, unconditionally, about a missing endpoint. It
  raises what \<^verbatim>\<open>_setupConsoleOverload\<close> raises.
\<close>

definition new_GELFLogger :: "world \<Rightarrow> config \<Rightarrow> (js_error \<times> world) + (world \<times> logger)" where
  "new_GELFLogger w0 config =
     (let e = cfg_env config;
          sid0 = or_str (cfg_log_session_id config) (env_get e LOG_SESSION_ID);
          sid = str_or sid0 (uuid_of w0 (next_id w0));
          w1 = (if truthy_str sid0 then w0 else bump w0);
          useWs = (case cfg_useWebSocket config of None \<Rightarrow> False | Some b \<Rightarrow> b);
          qa = next_id w1;
          w2 = bump (w1\<lparr>queues := (queues w1)(qa \<mapsto> [])\<rparr>);
          ep0 = or_str (cfg_endpoint config) (env_get e GELF_LOGGING_URL);
          noEndpoint = (\<not> useWs \<and> \<not> truthy_str ep0);
          w3 = (if noEndpoint then emit (Console CError) w2 else w2);
          w4 = (if useWs \<and> \<not> truthy_str (cfg_wsEndpoint config)
                then emit (Console CError) w3 else w3);
          ctx = (case cfg_request config of
                   None \<Rightarrow> env_context e
                 | Some rq \<Rightarrow> request_context rq (env_context e));
          lg = \<lparr>log_session_id = sid,
                useWebSocket = useWs,
                wsEndpoint = cfg_wsEndpoint config,
                wsConnection = None,
                wsMessageQueue = qa,
                wsConnecting = False,
                wsReconnectAttempts = 0,
                wsMaxReconnectAttempts = int_or (cfg_wsMaxReconnectAttempts config) 5,
                endpoint = (if noEndpoint then None else ep0),
                accessId = env_get e ACCESS_ID,
                accessSecret = env_get e ACCESS_SECRET,
                host = str_or (or_str (cfg_host config) (env_get e WORKER_NAME)) ''cloudflare-worker'',
                facility = str_or (cfg_facility config) ''worker'',
                cfContext = ctx,
                globalFields = (case cfg_globalFields config of None \<Rightarrow> [] | Some g \<Rightarrow> g),
                minLevel = (case cfg_minLevel config of None \<Rightarrow> INFO | Some l \<Rightarrow> l),
                consoleLog = (case cfg_consoleLog config of None \<Rightarrow> True | Some b \<Rightarrow> b),
                overloadConsole = (case cfg_overloadConsole config of None \<Rightarrow> False | Some b \<Rightarrow> b),
                timeout = int_or (cfg_timeout config) 5000,
                pendingPromises = [],
                stats = \<lparr>sent = 0, failed = 0, skipped = 0\<rparr>,
                failedMessages = [],
                maxFailedMessages = int_or (cfg_maxFailedMessages config) 50,
                wsAuthenticated = False,
                wsAuthTimeout = None,
                wsAuthTimer = None\<rparr>
      in if overloadConsole lg
         then (case priv_setupConsoleOverload w4 of Inl r \<Rightarrow> Inl r | Inr w5 \<Rightarrow> Inr (w5, lg))
         else Inr (w4, lg))"



section \<open>Notions of the specification\<close>

text \<open>A primitive value: anything but an array or an object.\<close>

definition is_primitive :: "jsval \<Rightarrow> bool" where
  "is_primitive v = (case v of JArr xs \<Rightarrow> False | JObj ps \<Rightarrow> False | _ \<Rightarrow> True)"


text \<open>A timer set, in the trace.\<close>

definition is_timer :: "effect \<Rightarrow> bool" where
  "is_timer e = (case e of SetTimeout t k d \<Rightarrow> True | _ \<Rightarrow> False)"

text \<open>
  The field order as the specification words it, to be compared with the builder: the base
  required fields (with \<^verbatim>\<open>full_message\<close> when one is given), then the ambient context fields
  whose value is neither \<^verbatim>\<open>null\<close> nor \<^verbatim>\<open>undefined\<close>, then the global fields, then the
  per-call custom fields that are not reserved names, each under its prefixed name; on a
  name collision the later field wins.
\<close>

definition spec_base :: "logger \<Rightarrow> jsval \<Rightarrow> int \<Rightarrow> jsval \<Rightarrow> jsval \<Rightarrow> entries" where
  "spec_base lg ts level shortMessage fullMessage =
     base_fields lg ts level shortMessage @
     (if truthy (default_arg JNull fullMessage)
      then [(''full_message'', full_message_field (default_arg JNull fullMessage))] else [])"



section \<open>Concrete loggers\<close>

text \<open>
  A platform with every console member, accepting every socket URL, and the logger
  \<^verbatim>\<open>new GELFLogger({endpoint: 'https://logs.example/gelf', consoleLog: false})\<close> built on it.
\<close>

definition world0 :: world where
  "world0 =
     \<lparr>trace = [], conns = Map.empty, queues = Map.empty, next_id = 0,
      url_ok = (\<lambda>u. True), uuid_of = (\<lambda>n. ''0b5e0c3a-6a55-4c57-9d0c-5a1f5a3f9e11''),
      console_functions = [''log'', ''info'', ''warn'', ''error'', ''debug'', ''trace'', ''dir'', ''assert''],
      console_patched = []\<rparr>"


definition world1 :: world where
  "world1 = world0\<lparr>queues := [1 \<mapsto> []], next_id := 2\<rparr>"

definition logger0 :: logger where
  "logger0 =
     \<lparr>log_session_id = ''0b5e0c3a-6a55-4c57-9d0c-5a1f5a3f9e11'',
      useWebSocket = False,
      wsEndpoint = None,
      wsConnection = None,
      wsMessageQueue = 1,
      wsConnecting = False,
      wsReconnectAttempts = 0,
      wsMaxReconnectAttempts = 5,
      endpoint = Some ''https://logs.example/gelf'',
      accessId = None,
      accessSecret = None,
      host = ''cloudflare-worker'',
      facility = ''worker'',
      cfContext = [],
      globalFields = [],
      minLevel = 6,
      consoleLog = False,
      overloadConsole = False,
      timeout = 5000,
      pendingPromises = [],
      stats = \<lparr>sent = 0, failed = 0, skipped = 0\<rparr>,
      failedMessages = [],
      maxFailedMessages = 50,
      wsAuthenticated = False,
      wsAuthTimeout = None,
      wsAuthTimer = None\<rparr>"

text \<open>Three failure records, in the order they were captured.\<close>

definition failure1 :: failure_info where
  "failure1 =
     \<lparr>fi_message = [(''short_message'', JStr ''first'')], fi_reason = ''http_error'',
      fi_error = ''HTTP 500 Internal Server Error'',
      fi_endpoint = Some ''https://logs.example/gelf'', fi_timestamp = 1000\<rparr>"

definition failure2 :: failure_info where
  "failure2 =
     \<lparr>fi_message = [(''short_message'', JStr ''second'')], fi_reason = ''timeout'',
      fi_error = ''Request timeout after 5000ms'',
      fi_endpoint = Some ''https://logs.example/gelf'', fi_timestamp = 2000\<rparr>"

definition failure3 :: failure_info where
  "failure3 =
     \<lparr>fi_message = [(''short_message'', JStr ''third'')], fi_reason = ''ws_send_error'',
      fi_error = ''Do not know how to serialize a BigInt'',
      fi_endpoint = None, fi_timestamp = 3000\<rparr>"


definition error0 :: jsval where
  "error0 = JObj [(''name'', JStr ''Error''), (''message'', JStr ''boom''),
                  (''stack'', JStr ''Error: boom at handler'')]"

definition message0 :: entries where
  "message0 = [(''short_message'', JStr ''hello'')]"

text \<open>The serialized small record, and two responses.\<close>

definition body0 :: string where
  "body0 = ''{'' @ [CHR 0x22] @ ''short_message'' @ [CHR 0x22] @ '':'' @ [CHR 0x22] @ ''hello'' @ [CHR 0x22] @ ''}''"



text \<open>
  A logger with an object among its global fields; a stream-transport logger with
  credentials, the states it passes through when a record is sent and the connection opens
  (with and without \<^verbatim>\<open>wsAuthTimeout\<close> assigned), and the handshake frame; a parent logger
  with its own limits.
\<close>

definition logger_meta :: logger where
  "logger_meta = logger0\<lparr>globalFields := [(''meta'', JObj [(''a'', JNum 1)])]\<rparr>"

definition json_a1 :: string where
  "json_a1 = ''{'' @ [CHR 0x22] @ ''a'' @ [CHR 0x22] @ '':1}''"

definition config_ws :: config where
  "config_ws =
     \<lparr>cfg_env = Some \<lparr>LOG_SESSION_ID = None, GELF_LOGGING_URL = None, ACCESS_ID = Some ''id-1'',
                       ACCESS_SECRET = Some ''secret-1'', WORKER_NAME = None, ENVIRONMENT = None,
                       FUNCTION_NAME = None\<rparr>,
      cfg_request = None, cfg_log_session_id = None, cfg_endpoint = None,
      cfg_useWebSocket = Some True, cfg_wsEndpoint = Some ''wss://logs.example/stream'',
      cfg_wsMaxReconnectAttempts = None, cfg_host = None, cfg_facility = None,
      cfg_globalFields = None, cfg_minLevel = None, cfg_consoleLog = Some False,
      cfg_overloadConsole = None, cfg_timeout = None, cfg_maxFailedMessages = None\<rparr>"

definition logger_ws :: logger where
  "logger_ws = logger0\<lparr>useWebSocket := True, wsEndpoint := Some ''wss://logs.example/stream'',
                       endpoint := None, accessId := Some ''id-1'',
                       accessSecret := Some ''secret-1''\<rparr>"

definition connecting_state :: state where
  "connecting_state = priv_sendWebSocket 0 (world1, logger_ws) message0"

definition opened_state :: state where
  "opened_state = ws_deliver 0 2 EvOpen connecting_state"

definition held_state :: state where
  "held_state =
     ws_deliver 0 2 EvOpen
       (priv_sendWebSocket 0 (world1, logger_ws\<lparr>wsAuthTimeout := Some 5000\<rparr>) message0)"

definition auth_frame0 :: string where
  "auth_frame0 =
     ''{'' @ [CHR 0x22] @ ''type'' @ [CHR 0x22] @ '':'' @ [CHR 0x22] @ ''auth'' @ [CHR 0x22] @
     '','' @ [CHR 0x22] @ ''access_id'' @ [CHR 0x22] @ '':'' @ [CHR 0x22] @ ''id-1'' @ [CHR 0x22] @
     '','' @ [CHR 0x22] @ ''access_secret'' @ [CHR 0x22] @ '':'' @ [CHR 0x22] @ ''secret-1'' @ [CHR 0x22] @
     '','' @ [CHR 0x22] @ ''log_session_id'' @ [CHR 0x22] @ '':'' @ [CHR 0x22] @
     ''0b5e0c3a-6a55-4c57-9d0c-5a1f5a3f9e11'' @ [CHR 0x22] @ ''}''"













section \<open>Properties of the model's plumbing\<close>

lemma default_arg_idem: "default_arg d (default_arg d v) = default_arg d v"
  by (simp add: default_arg_def)


lemma console_pair: "console m (w, lg) = (if mirrors lg then emit (Console m) w else w, lg)"
  by (simp add: console_def)





text \<open>
  The limits of a constructed logger are the configured ones when truthy, a negative one
  included, and the defaults otherwise.
\<close>

lemma constructor_maxFailedMessages:
  "new_GELFLogger w0 cfg = Inr (w1, lg1) \<Longrightarrow>
     maxFailedMessages lg1 = int_or (cfg_maxFailedMessages cfg) 50"
  by (auto simp: new_GELFLogger_def Let_def split: if_splits sum.splits)


section \<open>The record builder\<close>

subsection \<open>Assignment to a property\<close>

lemma map_of_obj_insert:
  "map_of ps k = None \<Longrightarrow> map_of (obj_insert k v ps) = (map_of ps)(k \<mapsto> v)"
proof (induction ps)
  case Nil
  then show ?case by simp
next
  case (Cons p ps)
  then show ?case by (cases p) (auto simp: fun_eq_iff split: if_splits)
qed

lemma map_of_overwrite:
  "map_of (map (\<lambda>p. if fst p = k then (k, v) else p) ps) x =
   (if x = k \<and> map_of ps k \<noteq> None then Some v else map_of ps x)"
  by (induction ps) auto

lemma map_of_obj_set: "map_of (obj_set k v ps) = (map_of ps)(k \<mapsto> v)"
  by (auto simp: obj_set_def map_of_obj_insert map_of_overwrite fun_eq_iff)

subsection \<open>The three loops\<close>

lemma map_of_add_context_fields:
  "map_of (add_context_fields ps m) =
   map_of m ++ map_of (rev (map (\<lambda>p. (field_name (fst p), snd p))
                             (filter (\<lambda>p. snd p \<noteq> JNull \<and> snd p \<noteq> JUndefined) ps)))"
proof (induction ps arbitrary: m)
  case Nil
  then show ?case by simp
next
  case (Cons p ps)
  show ?case
    by (auto simp: Cons.IH map_of_obj_set map_add_def fun_eq_iff split: option.splits)
qed

lemma map_of_add_global_fields:
  "map_of (add_global_fields ps m) =
   map_of m ++ map_of (rev (map (\<lambda>p. (field_name (fst p), snd p)) ps))"
proof (induction ps arbitrary: m)
  case Nil
  then show ?case by simp
next
  case (Cons p ps)
  show ?case
    by (auto simp: Cons.IH map_of_obj_set map_add_def fun_eq_iff split: option.splits)
qed

lemma map_of_add_custom_fields:
  "map_of (add_custom_fields ps m) =
   map_of m ++ map_of (rev (map (\<lambda>p. (field_name (fst p), custom_value (snd p)))
                             (filter (\<lambda>p. fst p \<notin> set reserved_keys) ps)))"
proof (induction ps arbitrary: m)
  case Nil
  then show ?case by simp
next
  case (Cons p ps)
  show ?case
    by (auto simp: Cons.IH map_of_obj_set map_add_def fun_eq_iff split: option.splits)
qed

subsection \<open>Prefixed names and reserved names\<close>


lemma field_name_underscore: "\<exists>cs. field_name k = CHR ''_'' # cs"
  by (cases k) (auto simp: field_name_def)

lemma reserved_not_field_name: "r \<in> set reserved_keys \<Longrightarrow> field_name k \<noteq> r"
  using field_name_underscore[of k] by (auto simp: reserved_keys_def)

lemma map_of_rev_prefixed_reserved:
  "r \<in> set reserved_keys \<Longrightarrow>
   map_of (rev (map (\<lambda>p. (field_name (fst p), g p)) ps)) r = None"
  by (auto simp: map_of_eq_None_iff image_iff dest: reserved_not_field_name)



lemma map_of_base_record:
  "map_of (if truthy (default_arg JNull fm)
           then obj_set ''full_message'' (full_message_field (default_arg JNull fm))
                  (base_fields lg ts level sm)
           else base_fields lg ts level sm)
   = map_of (spec_base lg ts level sm fm)"
  by (auto simp: map_of_obj_set spec_base_def base_fields_def fun_eq_iff)





subsection \<open>What the fields hold\<close>

lemma serialize_or_coerce_primitive:
  "js_typeof v = ''object'' \<Longrightarrow> v \<noteq> JNull \<Longrightarrow> is_primitive (serialize_or_coerce v)"
  by (cases v) (auto simp: serialize_or_coerce_def JSON_stringify_def is_primitive_def
                     split: option.splits)

text \<open>A per-call custom field is stored as a primitive: objects and arrays are serialized,
  or coerced to text when serialization raises.\<close>

lemma custom_value_primitive: "is_primitive (custom_value v)"
proof (cases "v = JNull \<or> v = JUndefined")
  case True
  then show ?thesis by (auto simp: custom_value_def is_primitive_def)
next
  case False
  then show ?thesis
    using serialize_or_coerce_primitive[of v]
    by (cases v) (auto simp: custom_value_def is_primitive_def)
qed

text \<open>Every built record has \<^verbatim>\<open>version\<close>, \<^verbatim>\<open>host\<close>, \<^verbatim>\<open>short_message\<close> and \<^verbatim>\<open>level\<close> set.\<close>

lemma build_required_fields:
  assumes "priv_buildGELFMessage lg ts level sm fm cf = Inr m"
  shows "map_of m ''version'' = Some (JStr ''1.1'') \<and>
         map_of m ''host'' = Some (JStr (host lg)) \<and>
         map_of m ''short_message'' = Some (JStr (js_String sm)) \<and>
         map_of m ''level'' = Some (JNum level)"
proof -
  from assms obtain es where
    m: "m = add_custom_fields es
              (add_global_fields (globalFields lg)
                (add_context_fields (cfContext lg)
                  (if truthy (default_arg JNull fm)
                   then obj_set ''full_message'' (full_message_field (default_arg JNull fm))
                          (base_fields lg ts level sm)
                   else base_fields lg ts level sm)))"
    by (auto simp: priv_buildGELFMessage_def Let_def split: sum.splits)
  have r: "map_of m r = map_of (spec_base lg ts level sm fm) r" if "r \<in> set reserved_keys" for r
    using that
    by (simp add: m map_of_add_custom_fields map_of_add_global_fields map_of_add_context_fields
          map_of_base_record map_add_def map_of_rev_prefixed_reserved)
  have "''version'' \<in> set reserved_keys" "''host'' \<in> set reserved_keys"
       "''short_message'' \<in> set reserved_keys" "''level'' \<in> set reserved_keys"
    by (simp_all add: reserved_keys_def)
  then show ?thesis
    by (simp add: r spec_base_def base_fields_def)
qed

text \<open>
  Claim C4 asks that every prefixed field, global and ambient ones included, hold a
  primitive or serialized text. The loop over the per-call custom fields serializes objects;
  the loops over the global and the ambient fields store the value as it is. A logger
  configured with \<^verbatim>\<open>globalFields: {meta: {a: 1}}\<close> builds a record whose \<^verbatim>\<open>_meta\<close> is the live
  object, where the same value passed as a per-call custom field is stored as the text
  \<^verbatim>\<open>{"a":1}\<close>.
\<close>

theorem global_field_object_stays_live:
  "priv_buildGELFMessage logger_meta (JNum 1700000000) INFO (JStr ''hello'') JNull JUndefined
     = Inr (base_fields logger0 (JNum 1700000000) INFO (JStr ''hello'')
            @ [(''_meta'', JObj [(''a'', JNum 1)])]) \<and>
   \<not> is_primitive (JObj [(''a'', JNum 1)]) \<and>
   priv_buildGELFMessage logger0 (JNum 1700000000) INFO (JStr ''hello'') JNull
       (JObj [(''meta'', JObj [(''a'', JNum 1)])])
     = Inr (base_fields logger0 (JNum 1700000000) INFO (JStr ''hello'')
            @ [(''_meta'', JStr json_a1)])"
  by (simp add: priv_buildGELFMessage_def logger_meta_def logger0_def base_fields_def
      default_arg_def Object_entries_def own_entries_def obj_set_def is_array_index_def
      field_name_def is_primitive_def custom_value_def serialize_or_coerce_def JSON_stringify_def
      json_quote_def json_escape_def json_number_def int_to_string_def digit_char_def json_a1_def
      reserved_keys_def Let_def is_digit_def)

section \<open>The log call\<close>

text \<open>Each level method is \<^verbatim>\<open>_log\<close> at its level.\<close>

lemma priv_log_defaults:
  "priv_log now ts st level sm (default_arg JNull fm) (default_arg (JObj []) cf)
     = priv_log now ts st level sm fm cf"
  by (simp add: priv_log_def default_arg_idem)

lemma level_methods:
  "emergency now ts st sm fm cf = priv_log now ts st 0 sm fm cf"
  "alert now ts st sm fm cf = priv_log now ts st 1 sm fm cf"
  "critical now ts st sm fm cf = priv_log now ts st 2 sm fm cf"
  "error now ts st sm fm cf = priv_log now ts st 3 sm fm cf"
  "warning now ts st sm fm cf = priv_log now ts st 4 sm fm cf"
  "warn now ts st sm fm cf = priv_log now ts st 4 sm fm cf"
  "notice now ts st sm fm cf = priv_log now ts st 5 sm fm cf"
  "info now ts st sm fm cf = priv_log now ts st 6 sm fm cf"
  "log now ts st sm fm cf = priv_log now ts st 6 sm fm cf"
  "debug now ts st sm fm cf = priv_log now ts st 7 sm fm cf"
  by (simp_all add: emergency_def alert_def critical_def error_def warning_def warn_def
      notice_def info_def log_def debug_def priv_log_defaults default_arg_idem
      EMERGENCY_def ALERT_def CRITICAL_def ERROR_def WARNING_def NOTICE_def INFO_def DEBUG_def)

lemma issue_request_raise_logger:
  "issue_request st url m = Inl (e, st1) \<Longrightarrow> snd st1 = snd st"
  by (auto simp: issue_request_def Let_def split: sum.splits if_splits)

lemma priv_send_raise_logger:
  "priv_send now st m = Inl (e, st1) \<Longrightarrow> snd st1 = snd st"
  by (auto simp: priv_send_def send_one_shot_def dest: issue_request_raise_logger
           split: if_splits option.splits)

lemma log_try_raise_logger:
  "log_try now ts st level sm fm cf = Inl (e, st1) \<Longrightarrow> snd st1 = snd st"
  by (auto simp: log_try_def dest: priv_send_raise_logger split: if_splits sum.splits)

text \<open>
  The \<^verbatim>\<open>catch\<close> block of \<^verbatim>\<open>_log\<close> returns when it is given an \<^verbatim>\<open>Error\<close> instance, and for
  every thrown value when no console line is mirrored; with mirroring on it raises when the
  thrown value is \<^verbatim>\<open>null\<close> or \<^verbatim>\<open>undefined\<close>.
\<close>

lemma log_catch_error_instance:
  "log_catch (Error_instance e) st = Inr (console CError (fst st, inc_failed (snd st)))"
  by (simp add: log_catch_def thrown_message_def console_def Let_def)

lemma log_catch_silent:
  "\<not> mirrors (snd st) \<Longrightarrow> log_catch t st = Inr (fst st, inc_failed (snd st))"
  by (auto simp: log_catch_def mirrors_def inc_failed_def Let_def)

lemma log_catch_raises:
  "mirrors (snd st) \<Longrightarrow> v = JNull \<or> v = JUndefined \<Longrightarrow> isl (log_catch (Thrown_value v) st)"
  by (auto simp: log_catch_def thrown_message_def get_prop_def mirrors_def inc_failed_def Let_def)

text \<open>
  On the plain data of this model, where whatever is raised inside \<^verbatim>\<open>_log\<close> is an \<^verbatim>\<open>Error\<close>
  instance, \<^verbatim>\<open>_log\<close> returns, counting one more \<^verbatim>\<open>failed\<close> when its \<^verbatim>\<open>try\<close> block raised; and
  \<^verbatim>\<open>exception\<close> returns when its error argument is neither \<^verbatim>\<open>null\<close> nor \<^verbatim>\<open>undefined\<close>.
\<close>

lemma priv_log_returns: "\<not> isl (priv_log now ts st level sm fm cf)"
  by (simp add: priv_log_def log_catch_error_instance split: sum.splits)

lemma priv_log_counts:
  assumes "isl (log_try now ts st level sm (default_arg JNull fm) (default_arg (JObj []) cf))"
  shows "\<exists>w'. priv_log now ts st level sm fm cf = Inr (w', inc_failed (snd st))"
proof -
  from assms obtain e st1 where
    r: "log_try now ts st level sm (default_arg JNull fm) (default_arg (JObj []) cf) = Inl (e, st1)"
    by (cases "log_try now ts st level sm (default_arg JNull fm) (default_arg (JObj []) cf)") auto
  then have "snd st1 = snd st" by (rule log_try_raise_logger)
  with r show ?thesis
    by (simp add: priv_log_def log_catch_error_instance console_pair)
qed

lemma get_prop_defined:
  "err \<noteq> JNull \<Longrightarrow> err \<noteq> JUndefined \<Longrightarrow> \<exists>v. get_prop err k = Inr v"
  by (cases err) (simp_all add: get_prop_def)

lemma exception_returns:
  assumes "err \<noteq> JNull" and "err \<noteq> JUndefined"
  shows "\<not> isl (exception now ts st err cf)"
proof -
  obtain nm where 1: "get_prop err ''name'' = Inr nm" using get_prop_defined[OF assms] by blast
  obtain msg where 2: "get_prop err ''message'' = Inr msg" using get_prop_defined[OF assms] by blast
  obtain stk where 3: "get_prop err ''stack'' = Inr stk" using get_prop_defined[OF assms] by blast
  show ?thesis
    by (simp add: exception_def 1 2 3 priv_log_returns)
qed

lemma exception_error_object_returns:
  "\<not> isl (exception 0 (JNum 1700000000) (world1, logger0) error0 JUndefined)"
  by (rule exception_returns) (simp_all add: error0_def)

text \<open>
  Claim C1 has every public logging method return normally whatever it is given, a failure
  inside being counted in \<^verbatim>\<open>failed\<close>. The code does not keep to it. \<^verbatim>\<open>exception(null)\<close>, the
  call a handler \<^verbatim>\<open>catch (e) { logger.exception(e) }\<close> makes after \<^verbatim>\<open>throw null\<close>, raises a
  \<^verbatim>\<open>TypeError\<close> to its caller: \<^verbatim>\<open>error.name\<close> is read before \<^verbatim>\<open>_log\<close> and its \<^verbatim>\<open>try\<close> are entered,
  and nothing is counted. And the \<^verbatim>\<open>catch\<close> block of \<^verbatim>\<open>_log\<close>, on a logger that mirrors to the
  console as loggers do by default, raises a \<^verbatim>\<open>TypeError\<close> to the caller of the level method
  when the value thrown inside is \<^verbatim>\<open>null\<close>, after counting the failure.
\<close>

theorem exception_null_raises:
  "exception 0 (JNum 1700000000) (world1, logger0) JNull JUndefined
     = Inl (TypeError ''Cannot read properties of null'', (world1, logger0)) \<and>
   log_catch (Thrown_value JNull) (world1, logger0\<lparr>consoleLog := True\<rparr>)
     = Inl (TypeError ''Cannot read properties of null'',
            (world1, inc_failed (logger0\<lparr>consoleLog := True\<rparr>)))"
  by (simp add: exception_def get_prop_def log_catch_def thrown_message_def mirrors_def
      inc_failed_def logger0_def Let_def)




section \<open>The one-shot transport: properties\<close>


text \<open>
  With a limit below 1, which the constructor keeps when it is configured as a negative
  number, the first failure is evicted as soon as it is pushed.
\<close>

lemma logFailure_limit_below_one:
  "maxFailedMessages lg < 1 \<Longrightarrow> failedMessages lg = [] \<Longrightarrow>
     failedMessages (snd (priv_logFailure (w, lg) fi)) = []"
  by (simp add: priv_logFailure_def console_def Let_def)









lemma stringify_message0: "JSON_stringify (JObj message0) = Inr (JStr body0)"
  by (simp add: JSON_stringify_def message0_def body0_def json_quote_def json_escape_def)



section \<open>The persistent-stream transport: the handshake\<close>

lemma new_GELFLogger_config_ws: "new_GELFLogger world0 config_ws = Inr (world1, logger_ws)"
  by (simp add: new_GELFLogger_def world0_def config_ws_def world1_def logger_ws_def logger0_def
      or_str_def env_get_def truthy_str_def str_or_def bump_def int_or_def
      env_context_def INFO_def Let_def)

lemma connecting:
  "connecting_state =
     (world1\<lparr>queues := [1 \<mapsto> [message0]],
             conns := [2 \<mapsto> \<lparr>ws_url = ''wss://logs.example/stream'', readyState = 0, frames = []\<rparr>],
             next_id := 3\<rparr>,
      logger_ws\<lparr>wsConnecting := True, wsConnection := Some 2\<rparr>)"
  by (simp add: connecting_state_def priv_sendWebSocket_def logger_ws_def logger0_def truthy_str_def
      set_queue_def queue_of_def world1_def world0_def conn_state_def priv_connectWebSocket_def
      new_WebSocket_def bump_def Let_def)

lemma auth_frame:
  "JSON_stringify (auth_message logger_ws) = Inr (JStr auth_frame0)"
  by (simp add: JSON_stringify_def auth_message_def logger_ws_def logger0_def auth_frame0_def
      json_quote_def json_escape_def)

lemma auth_frame':
  "JSON_stringify
     (JObj [(''type'', JStr ''auth''), (''access_id'', JStr ''id-1''),
            (''access_secret'', JStr ''secret-1''),
            (''log_session_id'', JStr ''0b5e0c3a-6a55-4c57-9d0c-5a1f5a3f9e11'')])
   = Inr (JStr auth_frame0)"
  using auth_frame by (simp add: auth_message_def logger_ws_def logger0_def)

lemma opened:
  "opened_state =
     (world1\<lparr>queues := [1 \<mapsto> []],
             conns := [2 \<mapsto> \<lparr>ws_url = ''wss://logs.example/stream'', readyState = 1,
                                frames = [auth_frame0, body0]\<rparr>],
             next_id := 3\<rparr>,
      logger_ws\<lparr>wsConnecting := False, wsConnection := Some 2,
                 stats := \<lparr>sent = 1, failed = 0, skipped = 0\<rparr>\<rparr>)"
  unfolding opened_state_def connecting
  by (simp add: ws_deliver_def set_readyState_def ws_onopen_def console_def mirrors_def Let_def
      ws_transmit_def auth_message_def auth_frame' ws_send_def start_auth_timer_def
      priv_processWebSocketQueue_def conn_state_def queue_of_def set_queue_def truthy_str_def
      stringify_message0 inc_sent_def world1_def world0_def logger_ws_def logger0_def)

lemma held:
  "held_state =
     (world1\<lparr>trace := [SetTimeout 3 AuthTimer 5000],
             queues := [1 \<mapsto> [message0]],
             conns := [2 \<mapsto> \<lparr>ws_url = ''wss://logs.example/stream'', readyState = 1,
                                frames = [auth_frame0]\<rparr>],
             next_id := 4\<rparr>,
      logger_ws\<lparr>wsConnecting := False, wsConnection := Some 2, wsAuthTimeout := Some 5000,
                 wsAuthTimer := Some 3\<rparr>)"
  unfolding held_state_def
  by (simp add: priv_sendWebSocket_def priv_connectWebSocket_def new_WebSocket_def
      ws_deliver_def set_readyState_def ws_onopen_def console_def mirrors_def Let_def
      ws_transmit_def auth_message_def auth_frame' ws_send_def start_auth_timer_def
      conn_state_def queue_of_def set_queue_def truthy_str_def emit_def bump_def
      world1_def world0_def logger_ws_def logger0_def)

lemma overload_raises:
  "priv_setupConsoleOverload world0
     = Inl (TypeError ''Cannot set properties of undefined'', world0\<lparr>console_patched := [''log'']\<rparr>)"
  by (simp add: priv_setupConsoleOverload_def class_wsConnection_def world0_def)

subsection \<open>Timers\<close>

lemma console_timers:
  "filter is_timer (trace (fst (console c st))) = filter is_timer (trace (fst st))"
  by (simp add: console_def emit_def is_timer_def)

lemma console_authTimer: "wsAuthTimer (snd (console c st)) = wsAuthTimer (snd st)"
  by (simp add: console_def)

lemma logFailure_timers:
  "filter is_timer (trace (fst (priv_logFailure st fi))) = filter is_timer (trace (fst st))"
  by (simp add: priv_logFailure_def Let_def console_timers)

lemma logFailure_authTimer: "wsAuthTimer (snd (priv_logFailure st fi)) = wsAuthTimer (snd st)"
  by (simp add: priv_logFailure_def Let_def console_authTimer)

lemma ws_send_trace: "ws_send w r p = Inr w' \<Longrightarrow> trace w' = trace w"
  by (auto simp: ws_send_def split: option.splits if_splits)

lemma ws_transmit_trace: "ws_transmit w r v = Inr w' \<Longrightarrow> trace w' = trace w"
  by (auto simp: ws_transmit_def dest: ws_send_trace split: sum.splits)

lemma drain_timers:
  "filter is_timer (trace (fst (snd (drain now q st)))) = filter is_timer (trace (fst st)) \<and>
   wsAuthTimer (snd (snd (drain now q st))) = wsAuthTimer (snd st)"
proof (induction q arbitrary: st)
  case Nil
  then show ?case by simp
next
  case (Cons m q)
  show ?case
  proof (cases "ws_transmit (fst st) (wsConnection (snd st)) (JObj m)")
    case (Inl e)
    then show ?thesis
      by (simp add: logFailure_timers logFailure_authTimer inc_failed_def)
  next
    case (Inr w')
    then show ?thesis
      using Cons.IH[of "(w', inc_sent (snd st))"] ws_transmit_trace[OF Inr]
      by (simp add: inc_sent_def)
  qed
qed

lemma processQueue_timers:
  "filter is_timer (trace (fst (priv_processWebSocketQueue now st))) = filter is_timer (trace (fst st)) \<and>
   wsAuthTimer (snd (priv_processWebSocketQueue now st)) = wsAuthTimer (snd st)"
  using drain_timers[of now "queue_of (fst st) (wsMessageQueue (snd st))" st]
  by (simp add: priv_processWebSocketQueue_def Let_def set_queue_def)

text \<open>
  On any state, with \<^verbatim>\<open>wsAuthTimeout\<close> unset (as the constructor leaves it, see
  \<open>constructor_wsAuthTimeout\<close>), the open handler sets no timer at all.
\<close>

lemma onopen_starts_no_timer:
  assumes "\<not> truthy_num (wsAuthTimeout (snd st))"
  shows "filter is_timer (trace (fst (ws_onopen now st))) = filter is_timer (trace (fst st)) \<and>
         wsAuthTimer (snd (ws_onopen now st)) = wsAuthTimer (snd st)"
proof -
  have s: "start_auth_timer (w, lg) = Inl (ReferenceError ''config is not defined'', (w, lg))"
    if "\<not> truthy_num (wsAuthTimeout lg)" for w lg
    using that by (auto simp: start_auth_timer_def truthy_num_def split: option.splits)
  show ?thesis
    using assms
    by (auto simp: ws_onopen_def Let_def console_pair processQueue_timers s emit_def is_timer_def
             dest: ws_transmit_trace split: sum.splits)
qed

lemma constructor_wsAuthTimeout:
  "new_GELFLogger w0 cfg = Inr (w1, lg1) \<Longrightarrow> wsAuthTimeout lg1 = None"
  by (auto simp: new_GELFLogger_def Let_def split: if_splits sum.splits)

lemma after_expiry:
  "queue_of (fst (auth_timer_fired 0 held_state)) 1 = [] \<and>
   sent (stats (snd (auth_timer_fired 0 held_state))) = 1"
  by (simp add: held auth_timer_fired_def console_def mirrors_def priv_processWebSocketQueue_def
      conn_state_def queue_of_def set_queue_def ws_transmit_def ws_send_def stringify_message0
      inc_sent_def Let_def logger_ws_def logger0_def world1_def world0_def)

subsection \<open>The open event on the example logger\<close>

text \<open>
  Claim C6 asks that, once the connection opens with credentials configured, a timer be
  started and the queue be held until an acknowledgment arrives or the timer expires. For
  the logger \<^verbatim>\<open>new GELFLogger({useWebSocket: true, wsEndpoint: 'wss://logs.example/stream',
  consoleLog: false, env: {ACCESS_ID: 'id-1', ACCESS_SECRET: 'secret-1'}})\<close> with one record
  queued, the open event writes the handshake and, right after it, the queued record: no
  timer is set, since evaluating \<^verbatim>\<open>config?.wsAuthTimeout\<close> raises and the \<^verbatim>\<open>catch\<close> drains the
  queue. Where \<^verbatim>\<open>wsAuthTimeout\<close> has been assigned on the instance, the timer is set and the
  queue is held, but an \<^verbatim>\<open>auth_ack\<close> message changes nothing: the handler that would act on
  it is assigned in \<^verbatim>\<open>_setupConsoleOverload\<close>, where the assignment raises.
\<close>

theorem stream_open_with_credentials:
  "new_GELFLogger world0 config_ws = Inr (world1, logger_ws) \<and>
   wsAuthTimeout logger_ws = None \<and>
   connecting_state =
     (world1\<lparr>queues := [1 \<mapsto> [message0]],
             conns := [2 \<mapsto> \<lparr>ws_url = ''wss://logs.example/stream'', readyState = 0, frames = []\<rparr>],
             next_id := 3\<rparr>,
      logger_ws\<lparr>wsConnecting := True, wsConnection := Some 2\<rparr>) \<and>
   opened_state =
     (world1\<lparr>queues := [1 \<mapsto> []],
             conns := [2 \<mapsto> \<lparr>ws_url = ''wss://logs.example/stream'', readyState = 1,
                                frames = [auth_frame0, body0]\<rparr>],
             next_id := 3\<rparr>,
      logger_ws\<lparr>wsConnecting := False, wsConnection := Some 2,
                 stats := \<lparr>sent = 1, failed = 0, skipped = 0\<rparr>\<rparr>) \<and>
   trace (fst opened_state) = [] \<and>
   wsAuthTimer (snd opened_state) = None \<and>
   queue_of (fst held_state) 1 = [message0] \<and>
   ws_deliver 0 2 (EvMessage (Some (JObj [(''type'', JStr ''auth_ack'')]))) held_state = held_state \<and>
   queue_of (fst (auth_timer_fired 0 held_state)) 1 = [] \<and>
   priv_setupConsoleOverload world0
     = Inl (TypeError ''Cannot set properties of undefined'', world0\<lparr>console_patched := [''log'']\<rparr>)"
proof -
  have t: "wsAuthTimeout logger_ws = None" by (simp add: logger_ws_def logger0_def)
  have o: "trace (fst opened_state) = []" "wsAuthTimer (snd opened_state) = None"
    by (simp_all add: opened world1_def world0_def logger_ws_def logger0_def)
  have h: "queue_of (fst held_state) 1 = [message0]"
    by (simp add: held queue_of_def)
  have k: "ws_deliver 0 2 (EvMessage (Some (JObj [(''type'', JStr ''auth_ack'')]))) held_state
             = held_state"
    by (simp add: ws_deliver_def)
  show ?thesis
    using new_GELFLogger_config_ws t connecting opened o h k after_expiry overload_raises by simp
qed

section \<open>Child loggers: properties\<close>



subsection \<open>Sends over a connection that is held\<close>











subsection \<open>The example parents and their children\<close>







subsection \<open>What the child takes over\<close>








section \<open>Failure introspection\<close>

text \<open>
  Claim C10. A limit of \<open>0\<close> is falsy, so \<^verbatim>\<open>getFailedMessages(0)\<close> returns the whole retained
  history, as the call without a limit does.
\<close>

theorem getFailedMessages_zero_limit:
  "getFailedMessages lg (Some 0) = failedMessages lg"
  by (simp add: getFailedMessages_def)

text \<open>
  Claim C8, as stated, asks for the most recent records ordered most-recent-first. With
  three retained failures and a limit of 2 the code returns the second and the third, in
  the order they were captured; most-recent-first would be the third, then the second.
\<close>

theorem getFailedMessages_not_most_recent_first:
  "getFailedMessages (logger0\<lparr>failedMessages := [failure1, failure2, failure3]\<rparr>) (Some 2)
     = [failure2, failure3]
   \<and> take 2 (rev (failedMessages (logger0\<lparr>failedMessages := [failure1, failure2, failure3]\<rparr>)))
     = [failure3, failure2]
   \<and> [failure2, failure3] \<noteq> [failure3, failure2]"
  by (simp add: getFailedMessages_def js_slice_from_def failure2_def failure3_def)

text \<open>
  Claim C8, amended. Without a limit \<^verbatim>\<open>getFailedMessages\<close> returns all retained failure
  records; with a positive limit \<open>n\<close> it returns the last \<open>min n (number retained)\<close> of them
  in the order they were captured, oldest first.
\<close>

theorem getFailedMessages_limit:
  assumes "0 < n"
  shows "getFailedMessages lg None = failedMessages lg \<and>
         getFailedMessages lg (Some n)
           = drop (length (failedMessages lg) - nat n) (failedMessages lg) \<and>
         length (getFailedMessages lg (Some n)) = min (nat n) (length (failedMessages lg))"
proof -
  have k: "nat (max (int (length (failedMessages lg)) + - n) 0)
             = length (failedMessages lg) - nat n"
    using assms by (simp add: max_def) arith
  show ?thesis
    using assms k by (simp add: getFailedMessages_def js_slice_from_def Let_def)
qed

theorem getFailedMessages_limit_witness:
  "(0::int) < 2 \<and>
   getFailedMessages (logger0\<lparr>failedMessages := [failure1, failure2, failure3]\<rparr>) (Some 2)
     = [failure2, failure3] \<and>
   getFailedMessages (logger0\<lparr>failedMessages := [failure1, failure2, failure3]\<rparr>) None
     = [failure1, failure2, failure3]"
  using getFailedMessages_limit [of 2 "logger0\<lparr>failedMessages := [failure1, failure2, failure3]\<rparr>"]
  by simp

text \<open>One step of the summary loop on a summary of the five initial keys.\<close>

lemma tally_step:
  "tally [(''no_endpoint'', a), (''http_error'', b), (''timeout'', c), (''network_error'', d),
          (''other'', e)] f =
   [(''no_endpoint'', a + (if fi_reason f = ''no_endpoint'' then 1 else 0)),
    (''http_error'', b + (if fi_reason f = ''http_error'' then 1 else 0)),
    (''timeout'', c + (if fi_reason f = ''timeout'' then 1 else 0)),
    (''network_error'', d + (if fi_reason f = ''network_error'' then 1 else 0)),
    (''other'', e + (if fi_reason f \<notin> set [''no_endpoint'', ''http_error'', ''timeout'',
                                          ''network_error''] then 1 else 0))]"
  by (simp add: tally_def)

lemma foldl_tally:
  "foldl tally [(''no_endpoint'', a), (''http_error'', b), (''timeout'', c),
                (''network_error'', d), (''other'', e)] fs =
   [(''no_endpoint'', a + length (filter (\<lambda>f. fi_reason f = ''no_endpoint'') fs)),
    (''http_error'', b + length (filter (\<lambda>f. fi_reason f = ''http_error'') fs)),
    (''timeout'', c + length (filter (\<lambda>f. fi_reason f = ''timeout'') fs)),
    (''network_error'', d + length (filter (\<lambda>f. fi_reason f = ''network_error'') fs)),
    (''other'', e + length (filter (\<lambda>f. fi_reason f \<notin> set [''no_endpoint'', ''http_error'',
                                                     ''timeout'', ''network_error'']) fs))]"
proof (induction fs arbitrary: a b c d e)
  case Nil
  then show ?case by simp
next
  case (Cons f fs)
  have "foldl tally [(''no_endpoint'', a), (''http_error'', b), (''timeout'', c),
                     (''network_error'', d), (''other'', e)] (f # fs)
      = foldl tally (tally [(''no_endpoint'', a), (''http_error'', b), (''timeout'', c),
                            (''network_error'', d), (''other'', e)] f) fs"
    by (simp only: foldl_Cons)
  then show ?case
    unfolding tally_step Cons.IH by simp
qed

text \<open>
  Claim C9, as stated, gives each of the six reason tags its own count. The summary has no
  entry for \<^verbatim>\<open>ws_send_error\<close> (nor for \<^verbatim>\<open>no_ws_endpoint\<close>): a retained failure bearing it is
  counted under \<^verbatim>\<open>other\<close>.
\<close>

theorem getFailureSummary_ws_reason_in_other:
  "fi_reason failure3 = ''ws_send_error''
   \<and> map_of (getFailureSummary (logger0\<lparr>failedMessages := [failure3]\<rparr>)) ''ws_send_error'' = None
   \<and> map_of (getFailureSummary (logger0\<lparr>failedMessages := [failure3]\<rparr>)) ''other'' = Some 1"
  by (simp add: getFailureSummary_def summary_init_def tally_def failure3_def)

text \<open>
  Claim C9, amended. \<^verbatim>\<open>getFailureSummary()\<close> returns, for each of the four tags
  \<^verbatim>\<open>no_endpoint\<close>, \<^verbatim>\<open>http_error\<close>, \<^verbatim>\<open>timeout\<close> and \<^verbatim>\<open>network_error\<close>, the number of retained
  failure records bearing it, and under \<^verbatim>\<open>other\<close> the number of retained records bearing any
  other reason, \<^verbatim>\<open>no_ws_endpoint\<close> and \<^verbatim>\<open>ws_send_error\<close> included.
\<close>

theorem getFailureSummary_counts:
  "getFailureSummary lg =
   [(''no_endpoint'', length (filter (\<lambda>f. fi_reason f = ''no_endpoint'') (failedMessages lg))),
    (''http_error'', length (filter (\<lambda>f. fi_reason f = ''http_error'') (failedMessages lg))),
    (''timeout'', length (filter (\<lambda>f. fi_reason f = ''timeout'') (failedMessages lg))),
    (''network_error'', length (filter (\<lambda>f. fi_reason f = ''network_error'') (failedMessages lg))),
    (''other'', length (filter (\<lambda>f. fi_reason f \<notin> set [''no_endpoint'', ''http_error'',
                                                 ''timeout'', ''network_error''])
                          (failedMessages lg)))]"
  unfolding getFailureSummary_def summary_init_def by (simp add: foldl_tally)

end
